theory Spec2Isabelle
  imports Complex_Main
begin

section \<open>Errors\<close>

text \<open>
  Every exception of the two modules is a value. \<open>IFC\<close> is
  \<^verbatim>\<open>error.RunError(error.IFC)\<close> and \<open>TYPE_MISMATCH\<close> is
  \<^verbatim>\<open>error.RunError(error.TYPE_MISMATCH)\<close>, raised by the code itself.
  \<open>OutOfRange\<close> is the failure of \<^verbatim>\<open>error.range_check\<close>.
  \<open>ZeroDivisionError\<close>, \<open>IndexError\<close>, \<open>KeyError\<close>, \<open>ValueError\<close> and \<open>StructError\<close>
  are the Python exceptions of a float division by zero, of an index outside a list, of a
  key missing from a dictionary, of \<^verbatim>\<open>chr\<close> or \<^verbatim>\<open>max\<close> on a value they do not
  take, and of \<^verbatim>\<open>struct.pack\<close> on a number that does not fit.
  \<open>External n\<close> is an exception raised inside a collaborator whose code is not part of
  \<^verbatim>\<open>machine.py\<close> or \<^verbatim>\<open>sound.py\<close> (the value conversion, the macro-language
  parser, the file layer, the video mode, the data memory), with a code \<open>n\<close> chosen by
  that collaborator.
\<close>

datatype error =
    IFC
  | TYPE_MISMATCH
  | OutOfRange
  | ZeroDivisionError
  | IndexError
  | KeyError
  | ValueError
  | StructError
  | External nat

definition bindE :: "error + 'a \<Rightarrow> ('a \<Rightarrow> error + 'b) \<Rightarrow> error + 'b" where
  "bindE r f = (case r of Inl e \<Rightarrow> Inl e | Inr a \<Rightarrow> f a)"

definition external :: "nat + 'a \<Rightarrow> error + 'a" where
  "external r = (case r of Inl n \<Rightarrow> Inl (External n) | Inr a \<Rightarrow> Inr a)"

section \<open>sound.py: the tone queues\<close>

text \<open>
  Python floats are modelled as reals: durations, frequencies and ratios are computed
  exactly. No property below depends on rounding.
\<close>

datatype event =
    AUDIO_TONE real real real bool int
  | AUDIO_NOISE bool real real real bool int
  | AUDIO_STOP
  | AUDIO_PERSIST bool

text \<open>
  A \<^verbatim>\<open>Queue.Queue\<close>: the items waiting, oldest first, and the counter
  \<^verbatim>\<open>unfinished_tasks\<close> that \<^verbatim>\<open>put\<close> increments and \<^verbatim>\<open>task_done\<close>
  decrements.
\<close>

record tqueue =
  items :: "event list"
  unfinished_tasks :: nat

definition qsize :: "tqueue \<Rightarrow> int" where
  "qsize q = int (length (items q))"

definition put :: "event \<Rightarrow> tqueue \<Rightarrow> tqueue" where
  "put e q = q\<lparr>items := items q @ [e], unfinished_tasks := Suc (unfinished_tasks q)\<rparr>"

definition empty_queue :: tqueue where
  "empty_queue = \<lparr>items = [], unfinished_tasks = 0\<rparr>"

record PlayState =
  octave :: int
  speed :: real
  tempo :: real
  length_ps :: real
  volume :: int

definition PlayState_init :: PlayState where
  "PlayState_init = \<lparr>octave = 4, speed = 7 / 8, tempo = 2, length_ps = 1 / 4, volume = 15\<rparr>"

record Sound =
  tone_queue :: "tqueue list"
  message_queue :: "event list"
  noise_freq :: "real list"
  beep_on :: bool
  capabilities :: string
  sound_on :: bool
  foreground :: bool
  play_state :: "PlayState list"

definition base_freq :: real where
  "base_freq = 3579545 / 1024"

definition note_freq :: "real list" where
  "note_freq = map (\<lambda>i. 440 * 2 powr ((real i - 33) / 12)) [0..<84]"

definition notes_dict :: "string \<rightharpoonup> int" where
  "notes_dict = [''C'' \<mapsto> 0, ''C#'' \<mapsto> 1, ''D-'' \<mapsto> 1, ''D'' \<mapsto> 2, ''D#'' \<mapsto> 3, ''E-'' \<mapsto> 3,
            ''E'' \<mapsto> 4, ''F'' \<mapsto> 5, ''F#'' \<mapsto> 6, ''G-'' \<mapsto> 6, ''G'' \<mapsto> 7, ''G#'' \<mapsto> 8,
            ''A-'' \<mapsto> 8, ''A'' \<mapsto> 9, ''A#'' \<mapsto> 10, ''B-'' \<mapsto> 10, ''B'' \<mapsto> 11]"

definition reset :: "Sound \<Rightarrow> Sound" where
  "reset s = s\<lparr>foreground := True,
               play_state := [PlayState_init, PlayState_init, PlayState_init]\<rparr>"

definition Sound_init :: "tqueue list \<Rightarrow> event list \<Rightarrow> string \<Rightarrow> Sound" where
  "Sound_init tq mq syntax =
     (let caps = (if syntax = ''pcjr'' \<or> syntax = ''tandy'' then syntax else '''')
      in reset \<lparr>tone_queue = tq, message_queue = mq,
                 noise_freq = (map (\<lambda>v. base_freq / v) [1, 2, 4, 1, 1, 2, 4, 1])[3 := 0, 7 := 0],
                 beep_on = True, capabilities = caps, sound_on = (caps = ''tandy''),
                 foreground = False, play_state = []\<rparr>)"

text \<open>
  \<^verbatim>\<open>play_sound_no_wait\<close>. The voice is a list index: outside the list of queues
  Python raises \<^verbatim>\<open>IndexError\<close>.
\<close>

definition play_sound_no_wait ::
  "real \<Rightarrow> real \<Rightarrow> real \<Rightarrow> bool \<Rightarrow> nat \<Rightarrow> int \<Rightarrow> Sound \<Rightarrow> error + Sound" where
  "play_sound_no_wait frequency duration fill loop voice vol s =
     (let f0 = (if frequency < 0 then 0 else frequency);
          f1 = (if (capabilities s = ''tandy'' \<or> (capabilities s = ''pcjr'' \<and> sound_on s))
                   \<and> f0 < 110 \<and> f0 \<noteq> 0 then 110 else f0);
          tone = AUDIO_TONE f1 duration fill loop vol
      in if length (tone_queue s) \<le> voice then Inl IndexError
         else
           let s1 = s\<lparr>tone_queue := (tone_queue s)[voice := put tone (tone_queue s ! voice)]\<rparr>
           in if voice = 2 \<and> f1 \<noteq> 0
              then Inr (s1\<lparr>noise_freq := (noise_freq s1)[3 := f1 / 2, 7 := f1 / 2]\<rparr>)
              else Inr s1)"

definition queue_length :: "Sound \<Rightarrow> nat \<Rightarrow> error + int" where
  "queue_length s voice =
     (if length (tone_queue s) \<le> voice then Inl IndexError
      else Inr (max 0 (qsize (tone_queue s ! voice) - 1)))"

text \<open>
  The condition of the loop in \<^verbatim>\<open>wait_music\<close>, with the left-to-right evaluation of
  \<^verbatim>\<open>or\<close>.
\<close>

definition music_waiting :: "Sound \<Rightarrow> int \<Rightarrow> error + bool" where
  "music_waiting s wait_length =
     bindE (queue_length s 0) (\<lambda>l0. if l0 > wait_length then Inr True else
     bindE (queue_length s 1) (\<lambda>l1. if l1 > wait_length then Inr True else
     bindE (queue_length s 2) (\<lambda>l2. Inr (l2 > wait_length))))"

text \<open>
  \<^verbatim>\<open>self.events.wait()\<close> hands control to the event loop, and the audio renderer
  takes tones off the queues meanwhile. That is the parameter \<open>events_wait\<close>: what one
  call does to the queues. The loop may run forever: \<open>None\<close> is the call that never
  returns.
\<close>

definition waited :: "(tqueue list \<Rightarrow> tqueue list) \<Rightarrow> Sound \<Rightarrow> Sound" where
  "waited events_wait s = s\<lparr>tone_queue := events_wait (tone_queue s)\<rparr>"

partial_function (option) wait_music ::
  "(tqueue list \<Rightarrow> tqueue list) \<Rightarrow> int \<Rightarrow> Sound \<Rightarrow> (error + Sound) option" where
  "wait_music events_wait wait_length s =
     (case music_waiting s wait_length of
        Inl e \<Rightarrow> Some (Inl e)
      | Inr w \<Rightarrow> if w then wait_music events_wait wait_length (waited events_wait s)
                 else Some (Inr s))"

definition play_sound ::
  "(tqueue list \<Rightarrow> tqueue list) \<Rightarrow> real \<Rightarrow> real \<Rightarrow> real \<Rightarrow> bool \<Rightarrow> nat \<Rightarrow> int \<Rightarrow> Sound
     \<Rightarrow> (error + Sound) option" where
  "play_sound events_wait frequency duration fill loop voice vol s =
     (case play_sound_no_wait frequency duration fill loop voice vol s of
        Inl e \<Rightarrow> Some (Inl e)
      | Inr s1 \<Rightarrow> wait_music events_wait 15 s1)"

definition beep :: "(tqueue list \<Rightarrow> tqueue list) \<Rightarrow> Sound \<Rightarrow> (error + Sound) option" where
  "beep events_wait s = play_sound events_wait 800 (1 / 4) 1 False 0 15 s"

definition is_playing :: "Sound \<Rightarrow> nat \<Rightarrow> error + bool" where
  "is_playing s voice =
     bindE (queue_length s voice)
       (\<lambda>l. Inr (l \<noteq> 0 \<or> unfinished_tasks (tone_queue s ! voice) \<noteq> 0))"

definition music_playing :: "Sound \<Rightarrow> error + bool" where
  "music_playing s =
     bindE (is_playing s 0) (\<lambda>p0. if p0 then Inr True else
     bindE (is_playing s 1) (\<lambda>p1. if p1 then Inr True else is_playing s 2))"

partial_function (option) wait_all_music ::
  "(tqueue list \<Rightarrow> tqueue list) \<Rightarrow> Sound \<Rightarrow> (error + Sound) option" where
  "wait_all_music events_wait s =
     (case music_playing s of
        Inl e \<Rightarrow> Some (Inl e)
      | Inr w \<Rightarrow> if w then wait_all_music events_wait (waited events_wait s)
                 else Some (Inr s))"

text \<open>
  \<^verbatim>\<open>stop_all_sound\<close>: every queue is emptied with \<^verbatim>\<open>get\<close> and
  \<^verbatim>\<open>task_done\<close>, one item at a time.
\<close>

definition drained :: "tqueue \<Rightarrow> tqueue" where
  "drained q = \<lparr>items = [], unfinished_tasks = unfinished_tasks q - length (items q)\<rparr>"

definition stop_all_sound :: "Sound \<Rightarrow> Sound" where
  "stop_all_sound s =
     s\<lparr>tone_queue := map drained (tone_queue s),
       message_queue := message_queue s @ [AUDIO_STOP]\<rparr>"

definition play_noise :: "nat \<Rightarrow> int \<Rightarrow> real \<Rightarrow> bool \<Rightarrow> Sound \<Rightarrow> error + Sound" where
  "play_noise source vol duration loop s =
     (if length (noise_freq s) \<le> source then Inl IndexError
      else if length (tone_queue s) \<le> 3 then Inl IndexError
      else Inr (s\<lparr>tone_queue := (tone_queue s)
                  [3 := put (AUDIO_NOISE (source > 3) (noise_freq s ! source) duration 1 loop vol)
                          (tone_queue s ! 3)]\<rparr>))"

definition persist :: "bool \<Rightarrow> Sound \<Rightarrow> Sound" where
  "persist flag s = s\<lparr>message_queue := message_queue s @ [AUDIO_PERSIST flag]\<rparr>"

section \<open>sound.py: the PLAY statement\<close>

text \<open>
  \<^verbatim>\<open>draw_and_play.MLParser\<close> is not part of \<^verbatim>\<open>sound.py\<close>: it is a parameter.
  Each of its methods reads from the stream the parser is bound to; here it takes the text
  not yet read and returns its value with the text left unread, or the code of the error it
  raises. The data segment given to \<^verbatim>\<open>play\<close> only reaches this parser.
\<close>

record ml_parser =
  whitepace :: string
  parse_number :: "string \<Rightarrow> nat + (int \<times> string)"
  ml_parse_number :: "string \<Rightarrow> nat + (int \<times> string)"
  parse_string :: "string \<Rightarrow> nat + (string \<times> string)"

text \<open>
  Modelled from the spec: \<^verbatim>\<open>util.skip_read\<close> and \<^verbatim>\<open>util.skip\<close> are missing from
  the sources. The interpreter scans each string one lexical unit at a time and ignores
  the parser's blank characters: \<open>skip_read\<close> drops them and reads one character,
  \<open>skip\<close> drops them and looks at the next character without reading it. Both give the
  empty string at the end of the text. The second component is the text left unread.
\<close>

definition skip_read :: "string \<Rightarrow> string \<Rightarrow> string \<times> string" where
  "skip_read skip_range ins =
     (case dropWhile (\<lambda>d. d \<in> set skip_range) ins of
        [] \<Rightarrow> ([], [])
      | d # rest \<Rightarrow> ([d], rest))"

definition skip :: "string \<Rightarrow> string \<Rightarrow> string \<times> string" where
  "skip skip_range ins =
     (let rest = dropWhile (\<lambda>d. d \<in> set skip_range) ins in (take 1 rest, rest))"

text \<open>\<^verbatim>\<open>str.upper\<close> on the letters a to z, \<^verbatim>\<open>string.digits\<close> and \<^verbatim>\<open>int\<close> of a string of digits.\<close>

definition upper_char :: "char \<Rightarrow> char" where
  "upper_char c =
     (case map_of (zip ''abcdefghijklmnopqrstuvwxyz'' ''ABCDEFGHIJKLMNOPQRSTUVWXYZ'') c of
        Some u \<Rightarrow> u
      | None \<Rightarrow> c)"

definition upper :: "string \<Rightarrow> string" where
  "upper s = map upper_char s"

definition digits :: string where
  "digits = ''0123456789''"

definition digit_value :: "char \<Rightarrow> int" where
  "digit_value c = (case map_of (zip ''0123456789'' [0, 1, 2, 3, 4, 5, 6, 7, 8, 9]) c of
     Some v \<Rightarrow> v | None \<Rightarrow> 0)"

definition int_of_digits :: "string \<Rightarrow> int" where
  "int_of_digits numstr = foldl (\<lambda>a c. 10 * a + digit_value c) 0 numstr"

text \<open>
  The local variables of \<^verbatim>\<open>play\<close>, with the sound state. A stream is the text not yet
  read: the code only reads forward, and the command \<open>X\<close> puts the substring in front of
  the unread text.
\<close>

record play_ctx =
  sound :: Sound
  gmls_list :: "string list"
  next_oct :: int
  total_time :: "real list"
  voices :: "nat list"

definition set_gmls :: "nat \<Rightarrow> string \<Rightarrow> play_ctx \<Rightarrow> play_ctx" where
  "set_gmls voice rest c = c\<lparr>gmls_list := (gmls_list c)[voice := rest]\<rparr>"

definition set_vstate :: "nat \<Rightarrow> (PlayState \<Rightarrow> PlayState) \<Rightarrow> play_ctx \<Rightarrow> play_ctx" where
  "set_vstate voice f c =
     c\<lparr>sound := (sound c)\<lparr>play_state :=
          (play_state (sound c))[voice := f (play_state (sound c) ! voice)]\<rparr>\<rparr>"

text \<open>
  The four places that sound a note or a rest do the same two things:
  \<^verbatim>\<open>play_sound\<close> on the voice, then the duration is added to the total of the voice.
\<close>

definition sound_note ::
  "(tqueue list \<Rightarrow> tqueue list) \<Rightarrow> real \<Rightarrow> real \<Rightarrow> real \<Rightarrow> int \<Rightarrow> nat \<Rightarrow> play_ctx
     \<Rightarrow> (error + play_ctx) option" where
  "sound_note events_wait frequency duration fill vol voice c =
     (case play_sound events_wait frequency duration fill False voice vol (sound c) of
        None \<Rightarrow> None
      | Some (Inl e) \<Rightarrow> Some (Inl e)
      | Some (Inr s') \<Rightarrow>
          if length (total_time c) \<le> voice then Some (Inl IndexError)
          else Some (Inr (c\<lparr>sound := s',
                  total_time := (total_time c)[voice := total_time c ! voice + duration]\<rparr>)))"

text \<open>
  The inner loop of a note: digits are read one by one, blanks between them are skipped.
  The text given starts with the character that \<^verbatim>\<open>skip\<close> has just looked at.
\<close>

function read_digits :: "string \<Rightarrow> string \<Rightarrow> string \<Rightarrow> string \<times> string" where
  "read_digits ws numstr [] = (numstr, [])"
| "read_digits ws numstr (c # rest) =
     (if c \<in> set digits
      then read_digits ws (numstr @ [c]) (dropWhile (\<lambda>d. d \<in> set ws) rest)
      else (numstr, c # rest))"
  by pat_completeness auto
termination
  by (relation "measure (\<lambda>(ws, numstr, s). length s)")
     (auto simp: less_Suc_eq_le length_dropWhile_le)

lemma read_digits_length: "length (snd (read_digits ws numstr s)) \<le> length s"
proof (induction ws numstr s rule: read_digits.induct)
  case (1 ws numstr)
  then show ?case by simp
next
  case (2 ws numstr c rest)
  have "length (dropWhile (\<lambda>d. d \<in> set ws) rest) \<le> length rest"
    by (rule length_dropWhile_le)
  with 2 show ?case by (auto simp: le_Suc_eq)
qed

lemma read_digits_shorter:
  "c \<in> set digits \<Longrightarrow> length (snd (read_digits ws numstr (c # rest))) < Suc (length rest)"
proof -
  assume "c \<in> set digits"
  then have "snd (read_digits ws numstr (c # rest))
      = snd (read_digits ws (numstr @ [c]) (dropWhile (\<lambda>d. d \<in> set ws) rest))" by simp
  moreover have "length (snd (read_digits ws (numstr @ [c]) (dropWhile (\<lambda>d. d \<in> set ws) rest)))
      \<le> length (dropWhile (\<lambda>d. d \<in> set ws) rest)" by (rule read_digits_length)
  moreover have "length (dropWhile (\<lambda>d. d \<in> set ws) rest) \<le> length rest"
    by (rule length_dropWhile_le)
  ultimately show ?thesis by simp
qed

text \<open>
  The loop over the modifiers of a note: dots, a length in digits, sharps and flats. A
  length of zero is a float division by zero.
\<close>

function note_mods :: "string \<Rightarrow> string \<Rightarrow> real \<Rightarrow> string \<Rightarrow> error + (string \<times> real \<times> string)" where
  "note_mods ws note dur ins =
     (case dropWhile (\<lambda>d. d \<in> set ws) ins of
        [] \<Rightarrow> Inr (note, dur, [])
      | c0 # rest \<Rightarrow>
          if upper_char c0 = CHR ''.'' then note_mods ws note (dur * (3 / 2)) rest
          else if upper_char c0 \<in> set digits then
            (if int_of_digits (fst (read_digits ws [] (upper_char c0 # rest))) = 0
             then Inl ZeroDivisionError
             else note_mods ws note
                    (1 / real_of_int (int_of_digits (fst (read_digits ws [] (upper_char c0 # rest)))))
                    (snd (read_digits ws [] (upper_char c0 # rest))))
          else if upper_char c0 = CHR ''#'' \<or> upper_char c0 = CHR ''+''
            then note_mods ws (note @ ''#'') dur rest
          else if upper_char c0 = CHR ''-'' then note_mods ws (note @ ''-'') dur rest
          else Inr (note, dur, c0 # rest))"
  by pat_completeness auto
termination
proof (relation "measure (\<lambda>(ws, note, dur, ins). length ins)", goal_cases)
  case 1
  then show ?case by simp
next
  case (2 ws nt dur ins c0 rest)
  have "length (dropWhile (\<lambda>d. d \<in> set ws) ins) \<le> length ins" by (rule length_dropWhile_le)
  with 2 show ?case by simp
next
  case (3 ws nt dur ins c0 rest)
  have "length (dropWhile (\<lambda>d. d \<in> set ws) ins) \<le> length ins" by (rule length_dropWhile_le)
  moreover have "length (snd (read_digits ws [] (upper_char c0 # rest))) < Suc (length rest)"
    using 3 by (intro read_digits_shorter) simp
  ultimately show ?case using 3 by simp
next
  case (4 ws nt dur ins c0 rest)
  have "length (dropWhile (\<lambda>d. d \<in> set ws) ins) \<le> length ins" by (rule length_dropWhile_le)
  with 4 show ?case by simp
next
  case (5 ws nt dur ins c0 rest)
  have "length (dropWhile (\<lambda>d. d \<in> set ws) ins) \<le> length ins" by (rule length_dropWhile_le)
  with 5 show ?case by simp
qed

text \<open>Indexing a Python list: a negative index counts from the end.\<close>

definition py_index :: "'a list \<Rightarrow> int \<Rightarrow> error + 'a" where
  "py_index xs i =
     (if 0 \<le> i \<and> i < int (length xs) then Inr (xs ! nat i)
      else if i < 0 \<and> - int (length xs) \<le> i then Inr (xs ! nat (int (length xs) + i))
      else Inl IndexError)"

text \<open>The branches of the command dispatch, one definition for each.\<close>

definition cmd_X :: "ml_parser \<Rightarrow> nat \<Rightarrow> string \<Rightarrow> play_ctx \<Rightarrow> (error + play_ctx) option" where
  "cmd_X P voice rest c =
     (case external (parse_string P rest) of
        Inl e \<Rightarrow> Some (Inl e)
      | Inr (sub, rest') \<Rightarrow> Some (Inr (set_gmls voice (sub @ rest') c)))"

definition cmd_N ::
  "ml_parser \<Rightarrow> (tqueue list \<Rightarrow> tqueue list) \<Rightarrow> nat \<Rightarrow> string \<Rightarrow> play_ctx
     \<Rightarrow> (error + play_ctx) option" where
  "cmd_N P events_wait voice rest c =
     (let vstate = play_state (sound c) ! voice in
      case external (ml_parse_number P rest) of
        Inl e \<Rightarrow> Some (Inl e)
      | Inr (note, rest1) \<Rightarrow>
          let (d, rest2) = skip (whitepace P) rest1;
              dotted = (upper d = ''.'');
              dur = (if dotted then length_ps vstate * (3 / 2) else length_ps vstate);
              c1 = set_gmls voice (if dotted then drop 1 rest2 else rest2) c
          in if note > 0 \<and> note \<le> 84 then
               (case py_index note_freq (note - 1) of
                  Inl e \<Rightarrow> Some (Inl e)
                | Inr f \<Rightarrow> sound_note events_wait f (dur * tempo vstate) (speed vstate)
                            (volume vstate) voice c1)
             else if note = 0 then
               sound_note events_wait 0 (dur * tempo vstate) (speed vstate) 0 voice c1
             else Some (Inr c1))"

definition cmd_L :: "ml_parser \<Rightarrow> nat \<Rightarrow> string \<Rightarrow> play_ctx \<Rightarrow> (error + play_ctx) option" where
  "cmd_L P voice rest c =
     (case external (parse_number P rest) of
        Inl e \<Rightarrow> Some (Inl e)
      | Inr (n, rest') \<Rightarrow>
          if n = 0 then Some (Inl ZeroDivisionError)
          else Some (Inr (set_vstate voice (\<lambda>v. v\<lparr>length_ps := 1 / real_of_int n\<rparr>)
                            (set_gmls voice rest' c))))"

definition cmd_T :: "ml_parser \<Rightarrow> nat \<Rightarrow> string \<Rightarrow> play_ctx \<Rightarrow> (error + play_ctx) option" where
  "cmd_T P voice rest c =
     (case external (parse_number P rest) of
        Inl e \<Rightarrow> Some (Inl e)
      | Inr (n, rest') \<Rightarrow>
          if n = 0 then Some (Inl ZeroDivisionError)
          else Some (Inr (set_vstate voice (\<lambda>v. v\<lparr>tempo := 240 / real_of_int n\<rparr>)
                            (set_gmls voice rest' c))))"

definition cmd_O :: "ml_parser \<Rightarrow> nat \<Rightarrow> string \<Rightarrow> play_ctx \<Rightarrow> (error + play_ctx) option" where
  "cmd_O P voice rest c =
     (case external (parse_number P rest) of
        Inl e \<Rightarrow> Some (Inl e)
      | Inr (n, rest') \<Rightarrow>
          Some (Inr (set_vstate voice (\<lambda>v. v\<lparr>octave := min 6 (max 0 n)\<rparr>)
                       (set_gmls voice rest' c))))"

definition octave_up :: "PlayState \<Rightarrow> PlayState" where
  "octave_up v = (if octave v + 1 > 6 then v\<lparr>octave := 6\<rparr> else v\<lparr>octave := octave v + 1\<rparr>)"

definition octave_down :: "PlayState \<Rightarrow> PlayState" where
  "octave_down v = (if octave v - 1 < 0 then v\<lparr>octave := 0\<rparr> else v\<lparr>octave := octave v - 1\<rparr>)"

definition cmd_note ::
  "ml_parser \<Rightarrow> (tqueue list \<Rightarrow> tqueue list) \<Rightarrow> nat \<Rightarrow> string \<Rightarrow> string \<Rightarrow> play_ctx
     \<Rightarrow> (error + play_ctx) option" where
  "cmd_note P events_wait voice ch rest c =
     (let vstate = play_state (sound c) ! voice in
      case note_mods (whitepace P) ch (length_ps vstate) rest of
        Inl e \<Rightarrow> Some (Inl e)
      | Inr (note, dur, rest') \<Rightarrow>
          let c1 = set_gmls voice rest' c;
              played =
                (if note = ''P'' then
                   sound_note events_wait 0 (dur * tempo vstate) (speed vstate) (volume vstate)
                     voice c1
                 else
                   case notes_dict note of
                     None \<Rightarrow> Some (Inl IFC)
                   | Some k \<Rightarrow>
                       (case py_index note_freq ((octave vstate + next_oct c) * 12 + k) of
                          Inl e \<Rightarrow> Some (Inl e)
                        | Inr f \<Rightarrow> sound_note events_wait f (dur * tempo vstate) (speed vstate)
                                    (volume vstate) voice c1))
          in case played of
               None \<Rightarrow> None
             | Some (Inl e) \<Rightarrow> Some (Inl e)
             | Some (Inr c2) \<Rightarrow> Some (Inr (c2\<lparr>next_oct := 0\<rparr>)))"

definition cmd_M :: "ml_parser \<Rightarrow> nat \<Rightarrow> string \<Rightarrow> play_ctx \<Rightarrow> (error + play_ctx) option" where
  "cmd_M P voice rest c =
     (let (c0, rest') = skip_read (whitepace P) rest;
          ch = upper c0;
          c1 = set_gmls voice rest' c
      in if ch = ''N'' then Some (Inr (set_vstate voice (\<lambda>v. v\<lparr>speed := 7 / 8\<rparr>) c1))
         else if ch = ''L'' then Some (Inr (set_vstate voice (\<lambda>v. v\<lparr>speed := 1\<rparr>) c1))
         else if ch = ''S'' then Some (Inr (set_vstate voice (\<lambda>v. v\<lparr>speed := 3 / 4\<rparr>) c1))
         else if ch = ''F'' then Some (Inr (c1\<lparr>sound := (sound c1)\<lparr>foreground := True\<rparr>\<rparr>))
         else if ch = ''B'' then Some (Inr (c1\<lparr>sound := (sound c1)\<lparr>foreground := False\<rparr>\<rparr>))
         else Some (Inl IFC))"

definition cmd_V :: "ml_parser \<Rightarrow> nat \<Rightarrow> string \<Rightarrow> play_ctx \<Rightarrow> (error + play_ctx) option" where
  "cmd_V P voice rest c =
     (case external (parse_number P rest) of
        Inl e \<Rightarrow> Some (Inl e)
      | Inr (n, rest') \<Rightarrow>
          Some (Inr (set_vstate voice (\<lambda>v. v\<lparr>volume := min 15 (max 0 n)\<rparr>)
                       (set_gmls voice rest' c))))"

text \<open>
  The body of \<^verbatim>\<open>for voice in voices\<close>: one command of one voice. When an error is
  raised the result is the error alone.
\<close>

definition voice_step ::
  "ml_parser \<Rightarrow> (tqueue list \<Rightarrow> tqueue list) \<Rightarrow> nat \<Rightarrow> play_ctx \<Rightarrow> (error + play_ctx) option" where
  "voice_step P events_wait voice c =
     (if length (play_state (sound c)) \<le> voice \<or> length (gmls_list c) \<le> voice
      then Some (Inl IndexError)
      else
        let (c0, rest) = skip_read (whitepace P) (gmls_list c ! voice);
            ch = upper c0;
            c1 = set_gmls voice rest c
        in if ch = [] then Some (Inr (c1\<lparr>voices := remove1 voice (voices c1)\<rparr>))
           else if ch = '';'' then Some (Inr c1)
           else if ch = ''X'' then cmd_X P voice rest c1
           else if ch = ''N'' then cmd_N P events_wait voice rest c1
           else if ch = ''L'' then cmd_L P voice rest c1
           else if ch = ''T'' then cmd_T P voice rest c1
           else if ch = ''O'' then cmd_O P voice rest c1
           else if ch = ''>'' then Some (Inr (set_vstate voice octave_up c1))
           else if ch = ''<'' then Some (Inr (set_vstate voice octave_down c1))
           else if ch \<in> {''A'', ''B'', ''C'', ''D'', ''E'', ''F'', ''G'', ''P''}
             then cmd_note P events_wait voice ch rest c1
           else if ch = ''M'' then cmd_M P voice rest c1
           else if ch = ''V'' \<and> (capabilities (sound c) = ''tandy''
                     \<or> (capabilities (sound c) = ''pcjr'' \<and> sound_on (sound c)))
             then cmd_V P voice rest c1
           else Some (Inl IFC))"

text \<open>A command never makes the list of active voices longer, so the loop over it ends.\<close>

lemma sound_note_frame:
  "sound_note ew f d fill vol voice c = Some (Inr c') \<Longrightarrow>
   voices c' = voices c \<and> gmls_list c' = gmls_list c \<and> next_oct c' = next_oct c"
  by (auto simp: sound_note_def split: option.splits sum.splits if_splits)

lemma cmd_voices:
  "cmd_X P voice rest c = Some (Inr c') \<Longrightarrow> voices c' = voices c"
  "cmd_N P ew voice rest c = Some (Inr c') \<Longrightarrow> voices c' = voices c"
  "cmd_L P voice rest c = Some (Inr c') \<Longrightarrow> voices c' = voices c"
  "cmd_T P voice rest c = Some (Inr c') \<Longrightarrow> voices c' = voices c"
  "cmd_O P voice rest c = Some (Inr c') \<Longrightarrow> voices c' = voices c"
  "cmd_note P ew voice ch rest c = Some (Inr c') \<Longrightarrow> voices c' = voices c"
  "cmd_M P voice rest c = Some (Inr c') \<Longrightarrow> voices c' = voices c"
  "cmd_V P voice rest c = Some (Inr c') \<Longrightarrow> voices c' = voices c"
  by (auto simp: cmd_X_def cmd_N_def cmd_L_def cmd_T_def cmd_O_def cmd_note_def cmd_M_def
      cmd_V_def set_gmls_def set_vstate_def Let_def
      split: option.splits sum.splits if_splits prod.splits dest!: sound_note_frame)

lemma voice_step_voices:
  assumes "voice_step P ew voice c = Some (Inr c')"
  shows "voices c' = voices c \<or> voices c' = remove1 voice (voices c)"
proof -
  obtain c0 rest where sk: "skip_read (whitepace P) (gmls_list c ! voice) = (c0, rest)"
    by (cases "skip_read (whitepace P) (gmls_list c ! voice)") auto
  have v1: "voices (set_gmls voice rest c) = voices c" by (simp add: set_gmls_def)
  show ?thesis
    using assms
    by (auto simp: voice_step_def sk v1 Let_def set_vstate_def set_gmls_def
        split: if_splits dest!: cmd_voices)
qed

lemma voice_step_length:
  "voice_step P ew voice c = Some (Inr c') \<Longrightarrow> length (voices c') \<le> length (voices c)"
  using voice_step_voices [of P ew voice c c'] by (auto simp: length_remove1)

text \<open>
  \<^verbatim>\<open>for voice in voices\<close>, as Python runs it: the iterator holds an index into the
  list, and the list may have lost an element when the index moves on.
\<close>

function for_voices ::
  "ml_parser \<Rightarrow> (tqueue list \<Rightarrow> tqueue list) \<Rightarrow> nat \<Rightarrow> play_ctx \<Rightarrow> (error + play_ctx) option" where
  "for_voices P events_wait i c =
     (if i < length (voices c) then
        (case voice_step P events_wait (voices c ! i) c of
           None \<Rightarrow> None
         | Some (Inl e) \<Rightarrow> Some (Inl e)
         | Some (Inr c') \<Rightarrow> for_voices P events_wait (Suc i) c')
      else Some (Inr c))"
  by pat_completeness auto
termination
proof (relation "measure (\<lambda>(P, ew, i, c). length (voices c) - i)", goal_cases)
  case 1
  then show ?case by simp
next
  case 2
  then show ?case by (auto dest!: voice_step_length)
qed

text \<open>
  \<^verbatim>\<open>while True\<close>: a substring may bring in more text for ever and a full queue may
  never drain, so the loop need not end.
\<close>

partial_function (option) play_loop ::
  "ml_parser \<Rightarrow> (tqueue list \<Rightarrow> tqueue list) \<Rightarrow> play_ctx \<Rightarrow> (error + play_ctx) option" where
  "play_loop P events_wait c =
     (if voices c = [] then Some (Inr c)
      else
        case for_voices P events_wait 0 c of
          None \<Rightarrow> None
        | Some (Inl e) \<Rightarrow> Some (Inl e)
        | Some (Inr c') \<Rightarrow> play_loop P events_wait c')"

text \<open>The padding of the shorter voices, and \<^verbatim>\<open>play\<close> itself.\<close>

fun pad_voices ::
  "(tqueue list \<Rightarrow> tqueue list) \<Rightarrow> real \<Rightarrow> real list \<Rightarrow> nat list \<Rightarrow> Sound
     \<Rightarrow> (error + Sound) option" where
  "pad_voices events_wait max_time tt [] s = Some (Inr s)"
| "pad_voices events_wait max_time tt (voice # vs) s =
     (if length tt \<le> voice then Some (Inl IndexError)
      else if tt ! voice < max_time then
        (case play_sound events_wait 0 (max_time - tt ! voice) 1 False voice 15 s of
           None \<Rightarrow> None
         | Some (Inl e) \<Rightarrow> Some (Inl e)
         | Some (Inr s') \<Rightarrow> pad_voices events_wait max_time tt vs s')
      else pad_voices events_wait max_time tt vs s)"

definition play ::
  "ml_parser \<Rightarrow> (tqueue list \<Rightarrow> tqueue list) \<Rightarrow> string list \<Rightarrow> Sound \<Rightarrow> (error + Sound) option" where
  "play P events_wait mml_list s =
     (case play_loop P events_wait
             \<lparr>sound = s, gmls_list = mml_list, next_oct = 0, total_time = [0, 0, 0, 0],
              voices = [0, 1, 2]\<rparr> of
        None \<Rightarrow> None
      | Some (Inl e) \<Rightarrow> Some (Inl e)
      | Some (Inr c) \<Rightarrow>
          (case total_time c of
             [] \<Rightarrow> Some (Inl ValueError)
           | t # ts \<Rightarrow>
               (case pad_voices events_wait (fold max ts t) (total_time c) [0, 1, 2] (sound c) of
                  None \<Rightarrow> None
                | Some (Inl e) \<Rightarrow> Some (Inl e)
                | Some (Inr s') \<Rightarrow>
                    if foreground s' then wait_all_music events_wait s' else Some (Inr s'))))"

section \<open>machine.py: the memory\<close>

text \<open>
  A statement that changes the state may raise after it has changed a part of it. Its result
  is the state it leaves behind, together with the exception when one is raised.
\<close>

datatype 'a outcome = Done 'a | Raised error 'a

definition then_do :: "'a outcome \<Rightarrow> ('a \<Rightarrow> 'a outcome) \<Rightarrow> 'a outcome" where
  "then_do r f = (case r of Done a \<Rightarrow> f a | Raised e a \<Rightarrow> Raised e a)"

definition video_segment :: int where
  "video_segment = 0xa000"

definition rom_segment :: int where
  "rom_segment = 0xf000"

definition ram_font_segment :: int where
  "ram_font_segment = 0xc000"

definition rom_font_addr :: int where
  "rom_font_addr = 0xfa6e"

definition ram_font_addr :: int where
  "ram_font_addr = 0x500"

definition key_buffer_offset :: int where
  "key_buffer_offset = 30"

definition blink_enabled :: bool where
  "blink_enabled = True"

text \<open>
  Modelled from the spec: the keyboard, the screen with its video mode, and the devices are
  collaborators whose classes are missing from the sources. The records hold what the
  memory model reads from them and writes to them: the modifier byte, the digits typed on
  the keypad and the ring buffer of sixteen slots with its two boundaries (a slot is a
  character, or the empty string, and a scan code); the monitor type, the mode with its
  width, name and page size, the cursor, the visible page, the palette and the border, the
  code page from character codes to code points, the glyphs that were rebuilt, and the
  video memory itself, of a type of its own; and whether a stream is attached to each port.
\<close>

record Keyboard =
  mod_kb :: int
  keypad_ascii :: string
  buf_start :: int
  buf_stop :: int
  ring_read :: "int \<Rightarrow> string \<times> int"

record 'vid Screen =
  monitor :: string
  colorswitch :: int
  capabilities_scr :: string
  is_text_mode :: bool
  width_mode :: int
  name_mode :: string
  page_size :: int
  current_col :: int
  current_row :: int
  to_line :: int
  from_line :: int
  vpagenum :: int
  palette_entry_0 :: int
  cga4_palette_num :: int
  border_attr :: int
  codepage :: "int \<rightharpoonup> nat"
  rebuilt_glyphs :: "int list"
  video :: 'vid

record Devices =
  com1_stream :: bool
  com2_stream :: bool
  lpt1_stream :: bool
  lpt2_stream :: bool
  lpt3_stream :: bool

text \<open>
  The memory object. \<open>data_memory\<close>, \<open>data_segment\<close> and \<open>protected\<close> are
  \<^verbatim>\<open>self.data\<close>, its segment and \<^verbatim>\<open>self.data.program.protected\<close>; \<open>run_mode\<close> is
  \<^verbatim>\<open>self.interpreter.run_mode\<close>; \<open>fontdict\<close> is \<^verbatim>\<open>self.font_8.fontdict\<close>, a glyph
  being the list of its eight bytes; \<open>files\<close> is the state of the file layer.
\<close>

record ('d, 'vid, 'f) Memory =
  data_memory :: 'd
  data_segment :: int
  protected :: bool
  run_mode :: bool
  segment :: int
  peek_values :: "int \<rightharpoonup> int"
  tandy_syntax :: bool
  fontdict :: "nat \<rightharpoonup> int list"
  screen :: "'vid Screen"
  keyboard :: Keyboard
  devices :: Devices
  files :: 'f

text \<open>
  The functions of other modules that the memory calls are parameters. Each takes the
  state of its collaborator and returns a value or the new state, or the code of the error
  it raises; a collaborator that raises has not changed its state.
  \<open>to_int unsigned v\<close> is \<^verbatim>\<open>values.to_int\<close>; \<open>data_get\<close> and \<open>data_set\<close> are
  \<^verbatim>\<open>data.get_memory\<close> and \<^verbatim>\<open>data.set_memory\<close>; \<open>video_get\<close> and \<open>video_set\<close> are
  \<^verbatim>\<open>screen.mode.get_memory\<close> and \<^verbatim>\<open>screen.mode.set_memory\<close>; \<open>open_input\<close> opens
  a file for \<^verbatim>\<open>BLOAD\<close> and gives its segment, its offset and its bytes;
  \<open>open_output\<close> opens one for \<^verbatim>\<open>BSAVE\<close> and \<open>file_write\<close> writes to it;
  \<open>magic_M\<close> is \<^verbatim>\<open>devices.type_to_magic['M']\<close>.
\<close>

record ('v, 'd, 'vid, 'f) collaborators =
  to_int :: "bool \<Rightarrow> 'v \<Rightarrow> nat + int"
  data_get :: "'d \<Rightarrow> int \<Rightarrow> nat + int"
  data_set :: "'d \<Rightarrow> int \<Rightarrow> int \<Rightarrow> nat + 'd"
  video_get :: "'vid \<Rightarrow> int \<Rightarrow> int \<Rightarrow> nat + int list"
  video_set :: "'vid \<Rightarrow> int \<Rightarrow> int list \<Rightarrow> nat + 'vid"
  open_input :: "'f \<Rightarrow> 'v \<Rightarrow> nat + (int \<times> int \<times> int list)"
  open_output :: "'f \<Rightarrow> 'v \<Rightarrow> int \<Rightarrow> int \<Rightarrow> int \<Rightarrow> nat + 'f"
  file_write :: "'f \<Rightarrow> int list \<Rightarrow> nat + 'f"
  magic_M :: "int list"

text \<open>
  Modelled from the spec: \<^verbatim>\<open>error.range_check\<close> is missing from the sources. A value
  outside the bounds fails with the out-of-range error, which the spec keeps apart from
  the protection error.
\<close>

definition range_check :: "int \<Rightarrow> int \<Rightarrow> int \<Rightarrow> error + unit" where
  "range_check lo hi v = (if v < lo \<or> hi < v then Inl OutOfRange else Inr ())"

definition Memory_init ::
  "'d \<Rightarrow> int \<Rightarrow> bool \<Rightarrow> bool \<Rightarrow> 'vid Screen \<Rightarrow> Keyboard \<Rightarrow> Devices \<Rightarrow> 'f \<Rightarrow> (nat \<rightharpoonup> int list)
     \<Rightarrow> string \<Rightarrow> ('d, 'vid, 'f) Memory" where
  "Memory_init dm dseg prot running scr kb devs fs font_8 syntax =
     \<lparr>data_memory = dm, data_segment = dseg, protected = prot, run_mode = running,
      segment = dseg, peek_values = Map.empty, tandy_syntax = (syntax = ''tandy''),
      fontdict = font_8, screen = scr, keyboard = kb, devices = devs, files = fs\<rparr>"

definition to_unicode :: "('d, 'vid, 'f) Memory \<Rightarrow> int \<Rightarrow> nat" where
  "to_unicode m char = (case codepage (screen m) char of Some uc \<Rightarrow> uc | None \<Rightarrow> 0)"

definition glyph_byte :: "('d, 'vid, 'f) Memory \<Rightarrow> nat \<Rightarrow> int \<Rightarrow> error + int" where
  "glyph_byte m uc i =
     (case fontdict m uc of None \<Rightarrow> Inl KeyError | Some glyph \<Rightarrow> py_index glyph i)"

definition get_rom_memory :: "('d, 'vid, 'f) Memory \<Rightarrow> int \<Rightarrow> error + int" where
  "get_rom_memory m addr =
     (let a = addr - (rom_segment * 0x10 + rom_font_addr); char = a div 8
      in if char > 127 \<or> char < 0 then Inr (- 1)
         else glyph_byte m (to_unicode m char) (a mod 8))"

definition get_font_memory :: "('d, 'vid, 'f) Memory \<Rightarrow> int \<Rightarrow> error + int" where
  "get_font_memory m addr =
     (let a = addr - (ram_font_segment * 0x10 + ram_font_addr); char = a div 8 + 128
      in if char < 128 \<or> char > 254 then Inr (- 1)
         else glyph_byte m (to_unicode m char) (a mod 8))"

definition set_font_memory ::
  "('d, 'vid, 'f) Memory \<Rightarrow> int \<Rightarrow> int \<Rightarrow> ('d, 'vid, 'f) Memory outcome" where
  "set_font_memory m addr val =
     (let a = addr - (ram_font_segment * 0x10 + ram_font_addr); char = a div 8 + 128
      in if char < 128 \<or> char > 254 then Done m
         else
           case codepage (screen m) char of
             None \<Rightarrow> Done m
           | Some uc \<Rightarrow>
               (case fontdict m uc of
                  None \<Rightarrow> Raised KeyError m
                | Some old \<Rightarrow>
                    if val < 0 \<or> 255 < val then Raised ValueError m
                    else Done (m\<lparr>fontdict := (fontdict m)
                                   (uc \<mapsto> take (nat (a mod 8)) old @ [val] @ drop (nat (a mod 8) + 1) old),
                                 screen := (screen m)
                                   \<lparr>rebuilt_glyphs := rebuilt_glyphs (screen m) @ [char]\<rparr>\<rparr>)))"

definition get_video_memory ::
  "('v, 'd, 'vid, 'f) collaborators \<Rightarrow> ('d, 'vid, 'f) Memory \<Rightarrow> int \<Rightarrow> error + int" where
  "get_video_memory E m addr =
     bindE (external (video_get E (video (screen m)) addr 1)) (\<lambda>bytes. py_index bytes 0)"

definition put_video ::
  "('v, 'd, 'vid, 'f) collaborators \<Rightarrow> ('d, 'vid, 'f) Memory \<Rightarrow> int \<Rightarrow> int list
     \<Rightarrow> ('d, 'vid, 'f) Memory outcome" where
  "put_video E m addr bytes =
     (case video_set E (video (screen m)) addr bytes of
        Inl n \<Rightarrow> Raised (External n) m
      | Inr vid \<Rightarrow> Done (m\<lparr>screen := (screen m)\<lparr>video := vid\<rparr>\<rparr>))"

definition set_video_memory ::
  "('v, 'd, 'vid, 'f) collaborators \<Rightarrow> ('d, 'vid, 'f) Memory \<Rightarrow> int \<Rightarrow> int
     \<Rightarrow> ('d, 'vid, 'f) Memory outcome" where
  "set_video_memory E m addr val = put_video E m addr [val]"

definition set_data_memory ::
  "('v, 'd, 'vid, 'f) collaborators \<Rightarrow> ('d, 'vid, 'f) Memory \<Rightarrow> int \<Rightarrow> int
     \<Rightarrow> ('d, 'vid, 'f) Memory outcome" where
  "set_data_memory E m addr val =
     (case data_set E (data_memory m) addr val of
        Inl n \<Rightarrow> Raised (External n) m
      | Inr dm \<Rightarrow> Done (m\<lparr>data_memory := dm\<rparr>))"

text \<open>
  \<^verbatim>\<open>_get_low_memory\<close>, branch by branch. A Python boolean in arithmetic is 0 or 1.
  The digits typed on the keypad are read with \<^verbatim>\<open>int\<close>; no digits count as 0.
\<close>

definition bool_int :: "bool \<Rightarrow> int" where
  "bool_int b = (if b then 1 else 0)"

definition mode_num :: "string \<rightharpoonup> int" where
  "mode_num = [''640x200x2'' \<mapsto> 6, ''160x200x16'' \<mapsto> 8, ''320x200x16pcjr'' \<mapsto> 9,
               ''640x200x4'' \<mapsto> 10, ''320x200x16'' \<mapsto> 13, ''640x200x16'' \<mapsto> 14,
               ''640x350x4'' \<mapsto> 15, ''640x350x16'' \<mapsto> 16, ''640x400x2'' \<mapsto> 0x40,
               ''320x200x4pcjr'' \<mapsto> 4]"

definition screen_mode_number :: "'vid Screen \<Rightarrow> int" where
  "screen_mode_number scr =
     (let cval = colorswitch scr mod 2
      in if is_text_mode scr then
           (if (capabilities_scr scr = ''mda'' \<or> capabilities_scr scr = ''ega_mono'')
               \<and> width_mode scr = 80 then 7
            else bool_int (width_mode scr = 40) * 2 + cval)
         else if name_mode scr = ''320x200x4'' then 4 + cval
         else (case mode_num (name_mode scr) of Some n \<Rightarrow> n | None \<Rightarrow> 0xff))"

definition get_low_memory :: "('d, 'vid, 'f) Memory \<Rightarrow> int \<Rightarrow> int" where
  "get_low_memory m addr =
     (let scr = screen m; kb = keyboard m; devs = devices m
      in if addr = 124 then ram_font_addr mod 256
         else if addr = 125 then ram_font_addr div 256
         else if addr = 126 then ram_font_segment mod 256
         else if addr = 127 then ram_font_segment div 256
         else if addr = 1040 then (if monitor scr = ''mono'' then 48 + 6 else 32 + 6)
         else if addr = 1041 then
           2 * (bool_int (com1_stream devs) + bool_int (com2_stream devs)) + 16 +
           64 * (bool_int (lpt1_stream devs) + bool_int (lpt2_stream devs)
                 + bool_int (lpt3_stream devs))
         else if addr = 1047 then mod_kb kb
         else if addr = 1048 then 0
         else if addr = 1049 then
           (if keypad_ascii kb = [] then 0 else int_of_digits (keypad_ascii kb)) mod 256
         else if addr = 1050 then (buf_start kb * 2 + key_buffer_offset) mod 256
         else if addr = 1051 then (buf_start kb * 2 + key_buffer_offset) div 256
         else if addr = 1052 then (buf_stop kb * 2 + key_buffer_offset) mod 256
         else if addr = 1053 then (buf_stop kb * 2 + key_buffer_offset) div 256
         else if 1024 + key_buffer_offset \<le> addr \<and> addr < 1024 + key_buffer_offset + 32 then
           (let index = (addr - 1024 - key_buffer_offset) div 2;
                odd = (addr - 1024 - key_buffer_offset) mod 2;
                (c, scan) = ring_read kb index
            in if odd \<noteq> 0 then scan
               else if c = [] then 0
               else int (of_char (hd c)))
         else if addr = 1097 then screen_mode_number scr
         else if addr = 1098 then width_mode scr mod 256
         else if addr = 1099 then width_mode scr div 256
         else if addr = 1100 then page_size scr mod 256
         else if addr = 1101 then page_size scr div 256
         else if 1104 \<le> addr \<and> addr < 1120 \<and> (addr - 1104) mod 2 = 0 then current_col scr - 1
         else if 1105 \<le> addr \<and> addr < 1120 \<and> (addr - 1105) mod 2 = 0 then current_row scr - 1
         else if addr = 1120 then to_line scr
         else if addr = 1121 then from_line scr
         else if addr = 1122 then vpagenum scr
         else if addr = 1125 then
           bool_int (width_mode scr = 80) * 1 + bool_int (\<not> is_text_mode scr) * 2 +
           colorswitch scr * 4 + 8 + bool_int (name_mode scr = ''640x200x2'') * 16 +
           bool_int blink_enabled * 32
         else if addr = 1126 then
           (if name_mode scr = ''320x200x4''
              then palette_entry_0 scr + 32 * cga4_palette_num scr
            else if is_text_mode scr then border_attr scr mod 16
            else - 1)
         else - 1)"

text \<open>
  \<^verbatim>\<open>_set_low_memory\<close>. \<^verbatim>\<open>ring_set_boundaries\<close> stores the two boundaries and
  \<^verbatim>\<open>ring_write\<close> stores a slot; \<^verbatim>\<open>chr\<close> takes 0 to 255 only.
\<close>

definition set_low_memory ::
  "('d, 'vid, 'f) Memory \<Rightarrow> int \<Rightarrow> int \<Rightarrow> ('d, 'vid, 'f) Memory outcome" where
  "set_low_memory m addr val =
     (let kb = keyboard m
      in if addr = 1047 then Done (m\<lparr>keyboard := kb\<lparr>mod_kb := val\<rparr>\<rparr>)
         else if addr = 1050 then
           Done (m\<lparr>keyboard := kb\<lparr>buf_start := (val - key_buffer_offset) div 2,
                                    buf_stop := buf_stop kb\<rparr>\<rparr>)
         else if addr = 1052 then
           Done (m\<lparr>keyboard := kb\<lparr>buf_start := buf_start kb,
                                    buf_stop := (val - key_buffer_offset) div 2\<rparr>\<rparr>)
         else if 1024 + key_buffer_offset \<le> addr \<and> addr < 1024 + key_buffer_offset + 32 then
           (let index = (addr - 1024 - key_buffer_offset) div 2;
                odd = (addr - 1024 - key_buffer_offset) mod 2;
                (c, scan) = ring_read kb index
            in if odd \<noteq> 0 then
                 Done (m\<lparr>keyboard := kb\<lparr>ring_read := (ring_read kb)(index := (c, val))\<rparr>\<rparr>)
               else if val = 0 \<or> val = 0xe0 then
                 Done (m\<lparr>keyboard := kb\<lparr>ring_read := (ring_read kb)(index := ([], scan))\<rparr>\<rparr>)
               else if val < 0 \<or> 255 < val then Raised ValueError m
               else
                 Done (m\<lparr>keyboard := kb\<lparr>ring_read :=
                         (ring_read kb)(index := ([char_of val], scan))\<rparr>\<rparr>))
         else Done m)"

text \<open>
  \<^verbatim>\<open>_get_memory\<close> and \<^verbatim>\<open>_set_memory\<close>: the preset values first, then the regions
  from the highest base down.
\<close>

definition max0 :: "error + int \<Rightarrow> error + int" where
  "max0 r = bindE r (\<lambda>v. Inr (max 0 v))"

definition get_memory ::
  "('v, 'd, 'vid, 'f) collaborators \<Rightarrow> ('d, 'vid, 'f) Memory \<Rightarrow> int \<Rightarrow> error + int" where
  "get_memory E m addr =
     (case peek_values m addr of
        Some v \<Rightarrow> Inr v
      | None \<Rightarrow>
          if addr \<ge> rom_segment * 0x10 then max0 (get_rom_memory m addr)
          else if addr \<ge> ram_font_segment * 0x10 then max0 (get_font_memory m addr)
          else if addr \<ge> video_segment * 0x10 then max0 (get_video_memory E m addr)
          else if addr \<ge> data_segment m * 0x10
            then max0 (external (data_get E (data_memory m) addr))
          else if addr \<ge> 0 then max0 (Inr (get_low_memory m addr))
          else Inr 0)"

definition set_memory ::
  "('v, 'd, 'vid, 'f) collaborators \<Rightarrow> ('d, 'vid, 'f) Memory \<Rightarrow> int \<Rightarrow> int
     \<Rightarrow> ('d, 'vid, 'f) Memory outcome" where
  "set_memory E m addr val =
     (if addr \<ge> rom_segment * 0x10 then Done m
      else if addr \<ge> ram_font_segment * 0x10 then set_font_memory m addr val
      else if addr \<ge> video_segment * 0x10 then set_video_memory E m addr val
      else if addr \<ge> data_segment m * 0x10 then set_data_memory E m addr val
      else if addr \<ge> 0 then set_low_memory m addr val
      else Done m)"

text \<open>Python slices \<^verbatim>\<open>buf[:k]\<close> and \<^verbatim>\<open>buf[k:]\<close>: a negative \<open>k\<close> counts from the end.\<close>

definition slice_to :: "'a list \<Rightarrow> int \<Rightarrow> 'a list" where
  "slice_to xs k = (if k < 0 then take (nat (int (length xs) + k)) xs else take (nat k) xs)"

definition slice_from :: "'a list \<Rightarrow> int \<Rightarrow> 'a list" where
  "slice_from xs k = (if k < 0 then drop (nat (int (length xs) + k)) xs else drop (nat k) xs)"

text \<open>
  The two block functions: the video region in one call, the rest byte by byte.
  \<^verbatim>\<open>chr\<close> fails on a byte above 255.
\<close>

fun get_bytes ::
  "('v, 'd, 'vid, 'f) collaborators \<Rightarrow> ('d, 'vid, 'f) Memory \<Rightarrow> int list \<Rightarrow> error + int list" where
  "get_bytes E m [] = Inr []"
| "get_bytes E m (a # as) =
     bindE (get_memory E m a) (\<lambda>v.
       if 255 < max 0 v then Inl ValueError
       else bindE (get_bytes E m as) (\<lambda>vs. Inr (max 0 v # vs)))"

definition get_memory_block ::
  "('v, 'd, 'vid, 'f) collaborators \<Rightarrow> ('d, 'vid, 'f) Memory \<Rightarrow> int \<Rightarrow> int
     \<Rightarrow> error + int list" where
  "get_memory_block E m addr len =
     (if addr \<ge> video_segment * 0x10 then
        (let video_len = 0x20000 - (addr - video_segment * 0x10);
             addr1 = addr + video_len;
             len1 = len - video_len
         in bindE (external (video_get E (video (screen m)) addr (min len video_len)))
              (\<lambda>block. bindE (get_bytes E m [addr1 .. addr1 + len1 - 1])
                 (\<lambda>bytes. Inr (block @ bytes))))
      else get_bytes E m [addr .. addr + len - 1])"

fun set_bytes ::
  "('v, 'd, 'vid, 'f) collaborators \<Rightarrow> ('d, 'vid, 'f) Memory \<Rightarrow> int \<Rightarrow> int list
     \<Rightarrow> ('d, 'vid, 'f) Memory outcome" where
  "set_bytes E m addr [] = Done m"
| "set_bytes E m addr (b # bs) =
     then_do (set_memory E m addr b) (\<lambda>m'. set_bytes E m' (addr + 1) bs)"

definition set_memory_block ::
  "('v, 'd, 'vid, 'f) collaborators \<Rightarrow> ('d, 'vid, 'f) Memory \<Rightarrow> int \<Rightarrow> int list
     \<Rightarrow> ('d, 'vid, 'f) Memory outcome" where
  "set_memory_block E m addr buf =
     (if addr \<ge> video_segment * 0x10 then
        (let video_len = 0x20000 - (addr - video_segment * 0x10)
         in then_do (put_video E m addr (slice_to buf video_len))
              (\<lambda>m'. set_bytes E m' (addr + video_len) (slice_from buf video_len)))
      else set_bytes E m addr buf)"

text \<open>
  The statements. Their arguments are values that were already evaluated; an argument that
  was left out is \<open>None\<close>.
\<close>

definition peek_op ::
  "('v, 'd, 'vid, 'f) collaborators \<Rightarrow> ('d, 'vid, 'f) Memory \<Rightarrow> 'v \<Rightarrow> error + int" where
  "peek_op E m addr =
     (if protected m \<and> \<not> run_mode m then Inl IFC
      else bindE (external (to_int E True addr))
             (\<lambda>a. get_memory E m (a + segment m * 0x10)))"

definition poke_op ::
  "('v, 'd, 'vid, 'f) collaborators \<Rightarrow> ('d, 'vid, 'f) Memory \<Rightarrow> 'v \<Rightarrow> 'v
     \<Rightarrow> ('d, 'vid, 'f) Memory outcome" where
  "poke_op E m addr val =
     (case external (to_int E True addr) of
        Inl e \<Rightarrow> Raised e m
      | Inr a \<Rightarrow>
          if protected m \<and> \<not> run_mode m then Raised IFC m
          else
            case external (to_int E False val) of
              Inl e \<Rightarrow> Raised e m
            | Inr v \<Rightarrow>
                (case range_check 0 255 v of
                   Inl e \<Rightarrow> Raised e m
                 | Inr _ \<Rightarrow>
                     set_memory E m ((if a < 0 then a + 0x10000 else a) + segment m * 0x10) v))"

definition bload_op ::
  "('v, 'd, 'vid, 'f) collaborators \<Rightarrow> ('d, 'vid, 'f) Memory \<Rightarrow> 'v \<Rightarrow> 'v option
     \<Rightarrow> ('d, 'vid, 'f) Memory outcome" where
  "bload_op E m name offset =
     (if protected m \<and> \<not> run_mode m then Raised IFC m
      else
        case (case offset of
                None \<Rightarrow> Inr None
              | Some v \<Rightarrow> bindE (external (to_int E True v)) (\<lambda>off. Inr (Some off))) of
          Inl e \<Rightarrow> Raised e m
        | Inr off \<Rightarrow>
            (case external (open_input E (files m) name) of
               Inl e \<Rightarrow> Raised e m
             | Inr (seg, g_offset, bytes) \<Rightarrow>
                 let buf1 = (if bytes \<noteq> [] \<and> last bytes = 0x1a then slice_to bytes (- 1)
                             else bytes);
                     buf2 = (if tandy_syntax m then slice_to buf1 (- 7) else buf1)
                 in set_memory_block E m
                      (seg * 0x10 + (case off of None \<Rightarrow> g_offset | Some v \<Rightarrow> v)) buf2))"

definition pack_H :: "int \<Rightarrow> error + int list" where
  "pack_H x = (if 0 \<le> x \<and> x \<le> 0xffff then Inr [x mod 256, x div 256] else Inl StructError)"

definition tandy_header ::
  "('v, 'd, 'vid, 'f) collaborators \<Rightarrow> int \<Rightarrow> int \<Rightarrow> int \<Rightarrow> error + int list" where
  "tandy_header E seg offset len =
     bindE (pack_H seg) (\<lambda>s. bindE (pack_H offset) (\<lambda>off. bindE (pack_H len)
       (\<lambda>l. Inr (magic_M E @ s @ off @ l))))"

definition write_file ::
  "('v, 'd, 'vid, 'f) collaborators \<Rightarrow> ('d, 'vid, 'f) Memory \<Rightarrow> error + int list
     \<Rightarrow> ('d, 'vid, 'f) Memory outcome" where
  "write_file E m block =
     (case block of
        Inl e \<Rightarrow> Raised e m
      | Inr bytes \<Rightarrow>
          (case file_write E (files m) bytes of
             Inl n \<Rightarrow> Raised (External n) m
           | Inr fs \<Rightarrow> Done (m\<lparr>files := fs\<rparr>)))"

definition bsave_op ::
  "('v, 'd, 'vid, 'f) collaborators \<Rightarrow> ('d, 'vid, 'f) Memory \<Rightarrow> 'v \<Rightarrow> 'v \<Rightarrow> 'v
     \<Rightarrow> ('d, 'vid, 'f) Memory outcome" where
  "bsave_op E m name offset len =
     (if protected m \<and> \<not> run_mode m then Raised IFC m
      else
        case external (to_int E True offset) of
          Inl e \<Rightarrow> Raised e m
        | Inr off \<Rightarrow>
            (case external (to_int E True len) of
               Inl e \<Rightarrow> Raised e m
             | Inr l \<Rightarrow>
                 (case open_output E (files m) name (segment m) off l of
                    Inl n \<Rightarrow> Raised (External n) m
                  | Inr fs \<Rightarrow>
                      then_do (write_file E (m\<lparr>files := fs\<rparr>)
                                 (get_memory_block E (m\<lparr>files := fs\<rparr>)
                                    (segment m * 0x10 + off) l))
                        (\<lambda>m'. if tandy_syntax m'
                               then write_file E m' (tandy_header E (segment m') off l)
                               else Done m'))))"

definition def_seg :: "('d, 'vid, 'f) Memory \<Rightarrow> int option \<Rightarrow> ('d, 'vid, 'f) Memory" where
  "def_seg m seg =
     (case seg of
        None \<Rightarrow> m\<lparr>segment := data_segment m\<rparr>
      | Some v \<Rightarrow> m\<lparr>segment := (if v < 0 then v + 0x10000 else v)\<rparr>)"

text \<open>
  The addresses that have a branch of their own in \<^verbatim>\<open>_get_low_memory\<close>: 124 to 127,
  1040 and 1041, 1047 to 1053 and the thirty-two bytes of the ring buffer from 1054,
  1097 to 1101, the cursor positions from 1104 to 1119, 1120 to 1122, 1125 and 1126.
\<close>

definition low_memory_mapped :: "int \<Rightarrow> bool" where
  "low_memory_mapped addr =
     ((124 \<le> addr \<and> addr \<le> 127) \<or> addr = 1040 \<or> addr = 1041
      \<or> (1047 \<le> addr \<and> addr \<le> 1085) \<or> (1097 \<le> addr \<and> addr \<le> 1101)
      \<or> (1104 \<le> addr \<and> addr \<le> 1122) \<or> addr = 1125 \<or> addr = 1126)"

section \<open>machine.py: the ports\<close>

unbundle bit_operations_syntax

text \<open>
  Modelled from the spec: the device streams are collaborators whose classes are missing
  from the sources. A serial stream holds its line parameters, which
  \<^verbatim>\<open>get_params\<close> returns and \<^verbatim>\<open>set_params\<close> stores, and the pins that
  \<^verbatim>\<open>set_pins\<close> sets; a parallel stream holds the bytes written to it and its control
  lines. The calls into the joystick and the screen are kept in a list, in order.
\<close>

record com_stream =
  baudrate :: int
  parity :: string
  bytesize :: int
  stopbits :: int
  rts :: int
  dtr :: int
  brk :: bool

record lpt_stream =
  written :: "int list"
  select :: int
  init :: int
  lf :: int
  strobe :: int

datatype session_call =
    ResetDecay
  | SetPlaneMask int
  | SetPlane int
  | SetColorburst bool

record MachinePorts =
  lpt_device :: "lpt_stream option list"
  com_device :: "com_stream option list"
  com_enable_baud_write :: "bool list"
  com_baud_divisor :: "int list"
  com_break :: "bool list"
  session_calls :: "session_call list"

definition com_base :: "(int \<times> nat) list" where
  "com_base = [(0x3f8, 0), (0x2f8, 1)]"

definition MachinePorts_init ::
  "lpt_stream option \<Rightarrow> lpt_stream option \<Rightarrow> com_stream option \<Rightarrow> com_stream option
     \<Rightarrow> MachinePorts" where
  "MachinePorts_init lpt1 lpt2 com1 com2 =
     \<lparr>lpt_device = [lpt1, lpt2], com_device = [com1, com2],
      com_enable_baud_write = [False, False], com_baud_divisor = [0, 0],
      com_break = [False, False], session_calls = []\<rparr>"

definition parity_of :: "int \<rightharpoonup> string" where
  "parity_of = [0x38 \<mapsto> ''S'', 0x28 \<mapsto> ''M'', 0x18 \<mapsto> ''E'', 0x8 \<mapsto> ''O'', 0 \<mapsto> ''N'']"

text \<open>The parallel ports: the data port and the control port of one of the two printers.\<close>

definition out_lpt :: "int \<Rightarrow> int \<Rightarrow> MachinePorts \<Rightarrow> MachinePorts outcome" where
  "out_lpt addr val p =
     (let lpt_port_nr = (if addr \<ge> 0x378 then 0 else 1 :: nat);
          base_addr = (if lpt_port_nr = 0 then 0x378 else 0x278 :: int)
      in if length (lpt_device p) \<le> lpt_port_nr then Raised IndexError p
         else
           case lpt_device p ! lpt_port_nr of
             None \<Rightarrow> Done p
           | Some stream \<Rightarrow>
               if addr - base_addr = 0 then
                 (if val < 0 \<or> 255 < val then Raised ValueError p
                  else Done (p\<lparr>lpt_device := (lpt_device p)
                         [lpt_port_nr := Some (stream\<lparr>written := written stream @ [val]\<rparr>)]\<rparr>))
               else
                 Done (p\<lparr>lpt_device := (lpt_device p)
                         [lpt_port_nr := Some (stream\<lparr>select := val AND 0x8, init := val AND 0x4,
                                                      lf := val AND 0x2, strobe := val AND 0x1\<rparr>)]\<rparr>))"

text \<open>
  The body of the loop over the serial ports, for the port \<open>com_port_nr\<close> at
  \<open>base_addr\<close>. The line-control register has set the flags of the port before the parity
  is looked up, and a parity that is not in the table is a \<^verbatim>\<open>KeyError\<close>.
\<close>

definition out_com :: "int \<Rightarrow> int \<Rightarrow> int \<times> nat \<Rightarrow> MachinePorts \<Rightarrow> MachinePorts outcome" where
  "out_com addr val port p =
     (let base_addr = fst port; com_port_nr = snd port
      in if length (com_device p) \<le> com_port_nr then Raised IndexError p
         else
           case com_device p ! com_port_nr of
             None \<Rightarrow> Done p
           | Some stream \<Rightarrow>
               if length (com_enable_baud_write p) \<le> com_port_nr
                  \<or> length (com_baud_divisor p) \<le> com_port_nr
                  \<or> length (com_break p) \<le> com_port_nr then Raised IndexError p
               else if (addr = base_addr \<or> addr = base_addr + 1)
                       \<and> com_enable_baud_write p ! com_port_nr then
                 (let divisor =
                        (if addr = base_addr
                         then (com_baud_divisor p ! com_port_nr AND 0xff00) + val
                         else val * 0x100 + (com_baud_divisor p ! com_port_nr AND 0xff));
                      p1 = p\<lparr>com_baud_divisor := (com_baud_divisor p)[com_port_nr := divisor]\<rparr>
                  in if divisor \<noteq> 0
                     then Done (p1\<lparr>com_device := (com_device p1)
                            [com_port_nr := Some (stream\<lparr>baudrate := 115200 div divisor\<rparr>)]\<rparr>)
                     else Done p1)
               else if addr = base_addr + 3 then
                 (let p1 = (if val AND 0x80 \<noteq> 0
                            then p\<lparr>com_enable_baud_write :=
                                     (com_enable_baud_write p)[com_port_nr := True]\<rparr>
                            else p);
                      p2 = p1\<lparr>com_break := (com_break p1)[com_port_nr := (val AND 0x40 \<noteq> 0)]\<rparr>
                  in case parity_of (val AND 0x38) of
                       None \<Rightarrow> Raised KeyError p2
                     | Some par \<Rightarrow>
                         Done (p2\<lparr>com_device := (com_device p2)
                            [com_port_nr := Some (stream
                               \<lparr>parity := par,
                                stopbits := (if val AND 0x4 \<noteq> 0 then 2 else 1),
                                bytesize := (val AND 0x3) + 5,
                                brk := (val AND 0x40 \<noteq> 0)\<rparr>)]\<rparr>))
               else if addr = base_addr + 4 then
                 Done (p\<lparr>com_device := (com_device p)
                         [com_port_nr := Some (stream\<lparr>rts := val AND 0x2, dtr := val AND 0x1\<rparr>)]\<rparr>)
               else Done p)"

fun out_coms :: "int \<Rightarrow> int \<Rightarrow> (int \<times> nat) list \<Rightarrow> MachinePorts \<Rightarrow> MachinePorts outcome" where
  "out_coms addr val [] p = Done p"
| "out_coms addr val (port # ports) p =
     then_do (out_com addr val port p) (out_coms addr val ports)"

definition out_op :: "int \<Rightarrow> int \<Rightarrow> MachinePorts \<Rightarrow> MachinePorts outcome" where
  "out_op addr val p =
     (if addr = 0x201 then Done (p\<lparr>session_calls := session_calls p @ [ResetDecay]\<rparr>)
      else if addr = 0x3c5 then Done (p\<lparr>session_calls := session_calls p @ [SetPlaneMask val]\<rparr>)
      else if addr = 0x3cf then Done (p\<lparr>session_calls := session_calls p @ [SetPlane val]\<rparr>)
      else if addr = 0x3d8
        then Done (p\<lparr>session_calls := session_calls p @ [SetColorburst (val AND 4 = 0)]\<rparr>)
      else if addr = 0x378 \<or> addr = 0x37A \<or> addr = 0x278 \<or> addr = 0x27A then out_lpt addr val p
      else out_coms addr val com_base p)"

text \<open>
  The state an outcome leaves behind, and the shape that \<^verbatim>\<open>__init__\<close> gives the lists of
  the ports: two entries each.
\<close>

definition state_of :: "'a outcome \<Rightarrow> 'a" where
  "state_of r = (case r of Done a \<Rightarrow> a | Raised e a \<Rightarrow> a)"

definition ports_wf :: "MachinePorts \<Rightarrow> bool" where
  "ports_wf p =
     (length (lpt_device p) = 2 \<and> length (com_device p) = 2
      \<and> length (com_enable_baud_write p) = 2 \<and> length (com_baud_divisor p) = 2
      \<and> length (com_break p) = 2)"

section \<open>States and parsers of the examples\<close>

text \<open>
  Calling \<^verbatim>\<open>play_sound_no_wait\<close> once for each entry of a list of parameters, on one
  voice, and nothing in between.
\<close>

fun enqueue_all :: "(real \<times> real \<times> real \<times> bool \<times> int) list \<Rightarrow> nat \<Rightarrow> Sound \<Rightarrow> error + Sound" where
  "enqueue_all [] voice s = Inr s"
| "enqueue_all ((f, d, fill, loop, vol) # ps) voice s =
     bindE (play_sound_no_wait f d fill loop voice vol s) (enqueue_all ps voice)"

text \<open>The adjusted queue length of a voice right after a tone was put on its queue.\<close>

definition enqueued_length ::
  "real \<Rightarrow> real \<Rightarrow> real \<Rightarrow> bool \<Rightarrow> nat \<Rightarrow> int \<Rightarrow> Sound \<Rightarrow> error + int" where
  "enqueued_length frequency duration fill loop voice vol s =
     bindE (play_sound_no_wait frequency duration fill loop voice vol s)
       (\<lambda>s1. queue_length s1 voice)"

text \<open>States for the examples: four empty queues, and voice 1 holding seventeen tones.\<close>

definition four_queues :: "tqueue list" where
  "four_queues = [empty_queue, empty_queue, empty_queue, empty_queue]"

definition busy_sound :: Sound where
  "busy_sound = (Sound_init four_queues [] '''')
     \<lparr>tone_queue := [empty_queue,
        \<lparr>items = replicate 17 (AUDIO_TONE 440 1 1 False 15), unfinished_tasks = 17\<rparr>,
        empty_queue, empty_queue]\<rparr>"

definition busy_sound_played :: Sound where
  "busy_sound_played = busy_sound\<lparr>tone_queue := (tone_queue busy_sound)
      [0 := put (AUDIO_TONE 440 1 1 False 15) (tone_queue busy_sound ! 0)]\<rparr>"

text \<open>
  A parser for the examples: blanks are spaces, a number is an unsigned decimal literal,
  and there are no string variables for \<open>X\<close>.
\<close>

definition literal_number :: "string \<Rightarrow> nat + (int \<times> string)" where
  "literal_number ins =
     (case dropWhile (\<lambda>d. d \<in> set '' '') ins of
        [] \<Rightarrow> Inl 5
      | c # rest \<Rightarrow>
          if c \<in> set digits
          then Inr (int_of_digits (fst (read_digits '' '' [] (c # rest))),
                    snd (read_digits '' '' [] (c # rest)))
          else Inl 5)"

definition literal_parser :: ml_parser where
  "literal_parser = \<lparr>whitepace = '' '', parse_number = literal_number,
     ml_parse_number = literal_number, parse_string = (\<lambda>ins. Inl 5)\<rparr>"

definition start_ctx :: "string list \<Rightarrow> Sound \<Rightarrow> play_ctx" where
  "start_ctx mml_list s =
     \<lparr>sound = s, gmls_list = mml_list, next_oct = 0, total_time = [0, 0, 0, 0],
      voices = [0, 1, 2]\<rparr>"

text \<open>The sound state after initialisation, and what the examples look at.\<close>

definition s0 :: Sound where
  "s0 = Sound_init four_queues [] ''''"

definition ctx_view :: "(error + play_ctx) option \<Rightarrow> (error + (string list \<times> nat list \<times> int list \<times> real list \<times> nat list)) option" where
  "ctx_view r = map_option (map_sum id (\<lambda>c. (gmls_list c, voices c, map octave (play_state (sound c)), total_time c, map (\<lambda>q. length (items q)) (tone_queue (sound c))))) r"

definition final_octave :: "(error + Sound) option \<Rightarrow> nat \<Rightarrow> int option" where
  "final_octave r voice =
     (case r of Some (Inr s) \<Rightarrow> Some (octave (play_state s ! voice)) | _ \<Rightarrow> None)"

definition loop_tones :: "(error + play_ctx) option \<Rightarrow> nat \<Rightarrow> event list option" where
  "loop_tones r voice =
     (case r of Some (Inr c) \<Rightarrow> Some (items (tone_queue (sound c) ! voice)) | _ \<Rightarrow> None)"

definition loop_octave :: "(error + play_ctx) option \<Rightarrow> nat \<Rightarrow> int option" where
  "loop_octave r voice =
     (case r of Some (Inr c) \<Rightarrow> Some (octave (play_state (sound c) ! voice)) | _ \<Rightarrow> None)"

text \<open>
  Collaborators and a memory for the examples: a value is a number or a text, and a text does
  not convert to an integer (error 13, as a number out of range is error 6); the data and
  video memories are functions from addresses to bytes; no file can be opened for reading
  (error 53) and the file layer keeps the blocks written.
\<close>

datatype basic_value = Number int | Text string

definition sample_to_int :: "bool \<Rightarrow> basic_value \<Rightarrow> nat + int" where
  "sample_to_int unsigned v =
     (case v of
        Text s \<Rightarrow> Inl 13
      | Number n \<Rightarrow>
          if - 32768 \<le> n \<and> n \<le> (if unsigned then 65535 else 32767) then Inr n else Inl 6)"

definition sample_collaborators ::
  "(basic_value, int \<Rightarrow> int, int \<Rightarrow> int, int list list) collaborators" where
  "sample_collaborators =
     \<lparr>to_int = sample_to_int,
      data_get = (\<lambda>d a. Inr (d a)),
      data_set = (\<lambda>d a v. Inr (d(a := v))),
      video_get = (\<lambda>vid a n. Inr (map vid [a .. a + n - 1])),
      video_set = (\<lambda>vid a bytes. Inr (\<lambda>x. if a \<le> x \<and> x < a + int (length bytes)
                                             then bytes ! nat (x - a) else vid x)),
      open_input = (\<lambda>fs name. Inl 53),
      open_output = (\<lambda>fs name seg off len. Inr fs),
      file_write = (\<lambda>fs bytes. Inr (fs @ [bytes])),
      magic_M = [0xfd]\<rparr>"

definition sample_screen :: "(int \<Rightarrow> int) Screen" where
  "sample_screen =
     \<lparr>monitor = ''cga'', colorswitch = 1, capabilities_scr = ''cga'', is_text_mode = True,
      width_mode = 80, name_mode = ''80x25'', page_size = 4096, current_col = 1,
      current_row = 1, to_line = 7, from_line = 6, vpagenum = 0, palette_entry_0 = 0,
      cga4_palette_num = 1, border_attr = 0, codepage = (\<lambda>c. Some (nat c)),
      rebuilt_glyphs = [], video = (\<lambda>a. 0)\<rparr>"

definition sample_keyboard :: Keyboard where
  "sample_keyboard =
     \<lparr>mod_kb = 0, keypad_ascii = [], buf_start = 0, buf_stop = 0, ring_read = (\<lambda>i. ([], 0))\<rparr>"

definition sample_devices :: Devices where
  "sample_devices =
     \<lparr>com1_stream = False, com2_stream = False, lpt1_stream = True, lpt2_stream = False,
      lpt3_stream = False\<rparr>"

definition sample_memory :: "bool \<Rightarrow> bool \<Rightarrow> (int \<Rightarrow> int, int \<Rightarrow> int, int list list) Memory" where
  "sample_memory prot running =
     Memory_init (\<lambda>a. 0) 0x13ad prot running sample_screen sample_keyboard sample_devices []
       (\<lambda>uc. Some [0, 0, 0, 0, 0, 0, 0, 0]) ''''"

text \<open>
  Ports for the examples: a stream on COM1 only, before and after a write of \<open>0x83\<close> to its
  line-control register.
\<close>

definition sample_com :: com_stream where
  "sample_com = \<lparr>baudrate = 1200, parity = ''E'', bytesize = 7, stopbits = 2, rts = 0, dtr = 0,
     brk = False\<rparr>"

definition sample_ports :: MachinePorts where
  "sample_ports = MachinePorts_init None None (Some sample_com) None"

definition latched_ports :: MachinePorts where
  "latched_ports = state_of (out_op 0x3fb 0x83 sample_ports)"

section \<open>Properties of the tone queues\<close>

lemma play_sound_no_wait_queue:
  assumes "voice < length (tone_queue s)"
  shows "\<exists>s1. play_sound_no_wait f d fill loop voice vol s = Inr s1
           \<and> length (tone_queue s1) = length (tone_queue s)
           \<and> (\<exists>e. tone_queue s1 = (tone_queue s)[voice := put e (tone_queue s ! voice)])
           \<and> play_state s1 = play_state s \<and> foreground s1 = foreground s
           \<and> capabilities s1 = capabilities s \<and> sound_on s1 = sound_on s"
  using assms by (auto simp: play_sound_no_wait_def Let_def)

lemma enqueue_all_length:
  "voice < length (tone_queue s) \<Longrightarrow>
   \<exists>s'. enqueue_all ps voice s = Inr s' \<and> length (tone_queue s') = length (tone_queue s)
      \<and> qsize (tone_queue s' ! voice) = qsize (tone_queue s ! voice) + int (length ps)"
proof (induction ps arbitrary: s)
  case Nil
  then show ?case by simp
next
  case (Cons p ps)
  obtain f d fill loop vol where p: "p = (f, d, fill, loop, vol)" by (cases p) auto
  from play_sound_no_wait_queue [OF Cons.prems, of f d fill loop vol]
  obtain s1 e where s1: "play_sound_no_wait f d fill loop voice vol s = Inr s1"
    "length (tone_queue s1) = length (tone_queue s)"
    "tone_queue s1 = (tone_queue s)[voice := put e (tone_queue s ! voice)]" by blast
  have v1: "voice < length (tone_queue s1)" using s1 Cons.prems by simp
  from Cons.IH [OF v1] obtain s' where s': "enqueue_all ps voice s1 = Inr s'"
    "length (tone_queue s') = length (tone_queue s1)"
    "qsize (tone_queue s' ! voice) = qsize (tone_queue s1 ! voice) + int (length ps)" by blast
  have "qsize (tone_queue s1 ! voice) = qsize (tone_queue s ! voice) + 1"
    using s1(3) Cons.prems by (simp add: qsize_def put_def)
  then show ?case using s1 s' p by (simp add: bindE_def)
qed

text \<open>
  C4. The adjusted queue length of a voice is \<open>max 0 (qsize - 1)\<close>; after \<open>N\<close> tones were
  put on an empty queue of a voice, with nothing taken off, it is \<open>N - 1\<close> for \<open>N \<ge> 1\<close>
  and \<open>0\<close> for \<open>N = 0\<close>.
\<close>

theorem queue_length_after_enqueue:
  assumes "voice < length (tone_queue s)" and "items (tone_queue s ! voice) = []"
  shows "queue_length s voice = Inr (max 0 (qsize (tone_queue s ! voice) - 1))
       \<and> (\<exists>s'. enqueue_all ps voice s = Inr s'
             \<and> queue_length s' voice = Inr (if length ps = 0 then 0 else int (length ps) - 1))"
proof -
  from enqueue_all_length [OF assms(1), of ps]
  obtain s' where s': "enqueue_all ps voice s = Inr s'"
    "length (tone_queue s') = length (tone_queue s)"
    "qsize (tone_queue s' ! voice) = qsize (tone_queue s ! voice) + int (length ps)" by blast
  have "qsize (tone_queue s ! voice) = 0" using assms(2) by (simp add: qsize_def)
  then show ?thesis using s' assms(1) by (auto simp: queue_length_def)
qed

theorem queue_length_after_enqueue_witness:
  "1 < length (tone_queue (Sound_init four_queues [] '''')) \<and>
   items (tone_queue (Sound_init four_queues [] '''') ! 1) = [] \<and>
   queue_length (Sound_init four_queues [] '''') 1 = Inr 0 \<and>
   (\<exists>s'. enqueue_all [(440, 1, 1, False, 15), (0, 1, 1, False, 0), (220, 2, 1, False, 15)] 1
            (Sound_init four_queues [] '''') = Inr s' \<and> queue_length s' 1 = Inr 2)"
  using queue_length_after_enqueue [of 1 "Sound_init four_queues [] ''''"
      "[(440, 1, 1, False, 15), (0, 1, 1, False, 0), (220, 2, 1, False, 15)]"]
  by (simp add: Sound_init_def reset_def four_queues_def empty_queue_def qsize_def Let_def)

lemma wait_music_stalled_aux:
  assumes "wait_music ew wl s = Some r"
  shows "\<not> (music_waiting s wl = Inr True \<and> waited ew s = s)"
proof (rule wait_music.raw_induct
    [where P = "\<lambda>ew wl s r. \<not> (music_waiting s wl = Inr True \<and> waited ew s = s)", OF _ assms])
  fix f :: "(tqueue list \<Rightarrow> tqueue list) \<Rightarrow> int \<Rightarrow> Sound \<Rightarrow> (error + Sound) option"
  fix ew wl s r
  assume IH: "\<And>ew wl s r. f ew wl s = Some r \<Longrightarrow> \<not> (music_waiting s wl = Inr True \<and> waited ew s = s)"
    and step: "(case music_waiting s wl of Inl e \<Rightarrow> Some (Inl e)
      | Inr w \<Rightarrow> if w then f ew wl (waited ew s) else Some (Inr s)) = Some r"
  show "\<not> (music_waiting s wl = Inr True \<and> waited ew s = s)"
  proof
    assume st: "music_waiting s wl = Inr True \<and> waited ew s = s"
    then have w: "music_waiting s wl = Inr True" and fx: "waited ew s = s" by simp_all
    from step have "f ew wl (waited ew s) = Some r" by (simp add: w)
    then have "f ew wl s = Some r" by (simp only: fx)
    from IH [OF this] w fx show False by blast
  qed
qed

lemma wait_music_stalled:
  assumes "music_waiting s wl = Inr True" and "ew (tone_queue s) = tone_queue s"
  shows "wait_music ew wl s = None"
proof (cases "wait_music ew wl s")
  case None
  then show ?thesis .
next
  case (Some r)
  have "waited ew s = s" using assms(2) by (simp add: waited_def)
  with wait_music_stalled_aux [OF Some] assms(1) show ?thesis by simp
qed

lemma wait_music_after:
  "\<forall>k<n. music_waiting ((waited ew ^^ k) s) wl = Inr True \<Longrightarrow>
   music_waiting ((waited ew ^^ n) s) wl = Inr False \<Longrightarrow>
   wait_music ew wl s = Some (Inr ((waited ew ^^ n) s))"
proof (induction n arbitrary: s)
  case 0
  then show ?case by (subst wait_music.simps) simp
next
  case (Suc n)
  have "music_waiting ((waited ew ^^ 0) s) wl = Inr True"
    using Suc.prems(1) by blast
  then have here: "music_waiting s wl = Inr True" by simp
  have later: "\<forall>k<n. music_waiting ((waited ew ^^ k) (waited ew s)) wl = Inr True"
  proof (intro allI impI)
    fix k assume "k < n"
    then have "music_waiting ((waited ew ^^ Suc k) s) wl = Inr True"
      using Suc.prems(1) by blast
    then show "music_waiting ((waited ew ^^ k) (waited ew s)) wl = Inr True"
      by (simp add: funpow_swap1)
  qed
  have last: "music_waiting ((waited ew ^^ n) (waited ew s)) wl = Inr False"
    using Suc.prems(2) by (simp add: funpow_swap1)
  have "wait_music ew wl s = wait_music ew wl (waited ew s)"
    using here by (subst wait_music.simps) simp
  also have "\<dots> = Some (Inr ((waited ew ^^ n) (waited ew s)))"
    by (rule Suc.IH [OF later last])
  finally show ?case by (simp add: funpow_swap1)
qed

lemma music_waiting_True:
  assumes "v < 3" and "queue_length s v = Inr l" and "wl < l"
  shows "music_waiting s wl = Inr True"
proof -
  have len: "v < length (tone_queue s)"
    using assms(2) by (auto simp: queue_length_def split: if_splits)
  from assms(1) consider "v = 0" | "v = 1" | "v = 2" by linarith
  then show ?thesis
    using len assms(2,3) by cases (auto simp: music_waiting_def queue_length_def bindE_def)
qed

lemma music_waiting_False:
  assumes "\<forall>v<3. \<exists>l\<le>wl. queue_length s v = Inr l"
  shows "music_waiting s wl = Inr False"
proof -
  have "\<exists>l\<le>wl. queue_length s 0 = Inr l" using assms by simp
  moreover have "\<exists>l\<le>wl. queue_length s 1 = Inr l" using assms by simp
  moreover have "\<exists>l\<le>wl. queue_length s 2 = Inr l" using assms by simp
  ultimately show ?thesis by (auto simp: music_waiting_def bindE_def)
qed

lemma enqueue_all_replicate:
  assumes "capabilities s = []" and "0 \<le> f" and "voice \<noteq> 2" and "voice < length (tone_queue s)"
  shows "enqueue_all (replicate n (f, d, fill, loop, vol)) voice s =
     Inr (s\<lparr>tone_queue := (tone_queue s)[voice := (tone_queue s ! voice)
        \<lparr>items := items (tone_queue s ! voice) @ replicate n (AUDIO_TONE f d fill loop vol),
         unfinished_tasks := unfinished_tasks (tone_queue s ! voice) + n\<rparr>]\<rparr>)"
  using assms
proof (induction n arbitrary: s)
  case 0
  then show ?case by simp
next
  case (Suc n)
  let ?s1 = "s\<lparr>tone_queue := (tone_queue s)[voice := put (AUDIO_TONE f d fill loop vol) (tone_queue s ! voice)]\<rparr>"
  have one: "play_sound_no_wait f d fill loop voice vol s = Inr ?s1"
    using Suc.prems by (simp add: play_sound_no_wait_def Let_def)
  have "enqueue_all (replicate n (f, d, fill, loop, vol)) voice ?s1 =
     Inr (?s1\<lparr>tone_queue := (tone_queue ?s1)[voice := (tone_queue ?s1 ! voice)
        \<lparr>items := items (tone_queue ?s1 ! voice) @ replicate n (AUDIO_TONE f d fill loop vol),
         unfinished_tasks := unfinished_tasks (tone_queue ?s1 ! voice) + n\<rparr>]\<rparr>)"
    by (rule Suc.IH) (use Suc.prems in simp_all)
  then show ?case
    using one Suc.prems(4) by (simp add: bindE_def put_def replicate_app_Cons_same)
qed

lemma busy_sound_reachable:
  "enqueue_all (replicate 17 (440, 1, 1, False, 15)) 1 (Sound_init four_queues [] []) = Inr busy_sound"
proof -
  have "enqueue_all (replicate 17 (440, 1, 1, False, 15)) 1 (Sound_init four_queues [] []) =
     Inr ((Sound_init four_queues [] [])\<lparr>tone_queue := (tone_queue (Sound_init four_queues [] []))[1 :=
        (tone_queue (Sound_init four_queues [] []) ! 1)
        \<lparr>items := items (tone_queue (Sound_init four_queues [] []) ! 1) @ replicate 17 (AUDIO_TONE 440 1 1 False 15),
         unfinished_tasks := unfinished_tasks (tone_queue (Sound_init four_queues [] []) ! 1) + 17\<rparr>]\<rparr>)"
    by (rule enqueue_all_replicate) (simp_all add: Sound_init_def reset_def four_queues_def)
  then show ?thesis
    by (simp add: busy_sound_def Sound_init_def reset_def four_queues_def empty_queue_def)
qed

text \<open>
  C3, as stated, fails: \<^verbatim>\<open>wait_music\<close> looks at the queues of all three voices. With
  seventeen tones on voice 1 (adjusted length 16) and a renderer that takes nothing off,
  a tone played on voice 0 leaves the adjusted length of voice 0 at 0, and the call never
  returns.
\<close>

theorem play_sound_other_voice_counterexample:
  "enqueued_length 440 1 1 False 0 15 busy_sound = Inr 0 \<and>
   play_sound id 440 1 1 False 0 15 busy_sound = None"
proof -
  let ?s1 = "busy_sound\<lparr>tone_queue := (tone_queue busy_sound)
      [0 := put (AUDIO_TONE 440 1 1 False 15) (tone_queue busy_sound ! 0)]\<rparr>"
  have one: "play_sound_no_wait 440 1 1 False 0 15 busy_sound = Inr ?s1"
    by (simp add: play_sound_no_wait_def busy_sound_def Sound_init_def reset_def Let_def)
  have q0: "queue_length ?s1 0 = Inr 0"
    by (simp add: queue_length_def busy_sound_def put_def qsize_def empty_queue_def)
  have q1: "queue_length ?s1 1 = Inr 16"
    by (simp add: queue_length_def busy_sound_def qsize_def)
  have "music_waiting ?s1 15 = Inr True"
    by (rule music_waiting_True [OF _ q1]) simp_all
  then have "wait_music id 15 ?s1 = None"
    by (rule wait_music_stalled) simp
  then show ?thesis using one q0 by (simp add: enqueued_length_def play_sound_def bindE_def)
qed

text \<open>
  C3, amended: \<^verbatim>\<open>play_sound\<close> puts the tone on the queue of its voice and then waits
  until the adjusted queue length of each of the voices 0, 1 and 2 is at most 15. It
  returns after exactly \<open>n\<close> calls of \<^verbatim>\<open>events.wait()\<close>, where \<open>n\<close> is the first
  moment at which all three are at most 15.
\<close>

theorem play_sound_returns:
  assumes "play_sound_no_wait frequency duration fill loop voice vol s = Inr s1"
    and "\<forall>k<n. \<exists>v<3. \<exists>l>15. queue_length ((waited events_wait ^^ k) s1) v = Inr l"
    and "\<forall>v<3. \<exists>l\<le>15. queue_length ((waited events_wait ^^ n) s1) v = Inr l"
  shows "play_sound events_wait frequency duration fill loop voice vol s
           = Some (Inr ((waited events_wait ^^ n) s1))"
proof -
  have "\<forall>k<n. music_waiting ((waited events_wait ^^ k) s1) 15 = Inr True"
    using assms(2) music_waiting_True by blast
  moreover have "music_waiting ((waited events_wait ^^ n) s1) 15 = Inr False"
    using assms(3) by (rule music_waiting_False)
  ultimately have "wait_music events_wait 15 s1 = Some (Inr ((waited events_wait ^^ n) s1))"
    by (rule wait_music_after)
  then show ?thesis using assms(1) by (simp add: play_sound_def)
qed

theorem play_sound_returns_witness:
  "play_sound_no_wait 440 1 1 False 0 15 busy_sound = Inr busy_sound_played \<and>
   queue_length busy_sound_played 1 = Inr 16 \<and>
   play_sound (map drained) 440 1 1 False 0 15 busy_sound
     = Some (Inr ((waited (map drained) ^^ 1) busy_sound_played))"
proof -
  have h1: "play_sound_no_wait 440 1 1 False 0 15 busy_sound = Inr busy_sound_played"
    by (simp add: play_sound_no_wait_def busy_sound_played_def busy_sound_def Sound_init_def
        reset_def Let_def)
  have q1: "queue_length busy_sound_played 1 = Inr 16"
    by (simp add: queue_length_def busy_sound_played_def busy_sound_def qsize_def)
  then have "\<exists>v<3. \<exists>l>15. queue_length busy_sound_played v = Inr l"
    by (intro exI [of _ 1] exI [of _ 16]) simp
  then have h2: "\<forall>k<1. \<exists>v<3. \<exists>l>15.
      queue_length ((waited (map drained) ^^ k) busy_sound_played) v = Inr l"
    by simp
  have len: "length (tone_queue ((waited (map drained) ^^ 1) busy_sound_played)) = 4"
    by (simp add: waited_def busy_sound_played_def busy_sound_def)
  have "queue_length ((waited (map drained) ^^ 1) busy_sound_played) v = Inr 0" if "v < 3" for v
  proof -
    from that consider "v = 0" | "v = 1" | "v = 2" by linarith
    then show ?thesis
      using len
      by cases (simp_all add: queue_length_def waited_def qsize_def drained_def
          busy_sound_played_def busy_sound_def)
  qed
  then have h3: "\<forall>v<3. \<exists>l\<le>15.
      queue_length ((waited (map drained) ^^ 1) busy_sound_played) v = Inr l"
    by auto
  from play_sound_returns [OF h1 h2 h3] h1 q1 show ?thesis by blast
qed

section \<open>Properties of the PLAY statement\<close>

lemma wait_music_done: "music_waiting s wl = Inr False \<Longrightarrow> wait_music ew wl s = Some (Inr s)"
  by (subst wait_music.simps) simp

lemma wait_music_step:
  "music_waiting s wl = Inr True \<Longrightarrow> wait_music ew wl s = wait_music ew wl (waited ew s)"
  by (subst wait_music.simps) simp

lemma wait_all_music_done: "music_playing s = Inr False \<Longrightarrow> wait_all_music ew s = Some (Inr s)"
  by (subst wait_all_music.simps) simp

lemma wait_all_music_step:
  "music_playing s = Inr True \<Longrightarrow> wait_all_music ew s = wait_all_music ew (waited ew s)"
  by (subst wait_all_music.simps) simp

lemma play_loop_done: "voices c = [] \<Longrightarrow> play_loop P ew c = Some (Inr c)"
  by (subst play_loop.simps) simp

lemma play_loop_step:
  "voices c \<noteq> [] \<Longrightarrow> for_voices P ew 0 c = Some (Inr c') \<Longrightarrow>
   play_loop P ew c = play_loop P ew c'"
  by (subst play_loop.simps) simp

lemma for_voices_done: "length (voices c) \<le> i \<Longrightarrow> for_voices P ew i c = Some (Inr c)"
  by simp

lemma for_voices_step:
  "i < length (voices c) \<Longrightarrow> voice_step P ew (voices c ! i) c = Some (Inr c') \<Longrightarrow>
   for_voices P ew i c = for_voices P ew (Suc i) c'"
  by simp

lemma note_freq_nth: "i < 84 \<Longrightarrow> note_freq ! i = 440 * 2 powr ((real i - 33) / 12)"
  by (simp add: note_freq_def)

lemma note_freq_pos: "i < 84 \<Longrightarrow> 0 < note_freq ! i"
  by (simp add: note_freq_nth)

lemma note_freq_not_neg: "i < 84 \<Longrightarrow> \<not> note_freq ! i < 0"
  using note_freq_pos [of i] by simp

lemma note_freq_nonzero: "i < 84 \<Longrightarrow> note_freq ! i \<noteq> 0"
  using note_freq_pos [of i] by simp

lemma length_note_freq: "length note_freq = 84"
  by (simp add: note_freq_def)

lemmas eval_defs = voice_step_def start_ctx_def s0_def Sound_init_def reset_def skip_read_def skip_def
      literal_parser_def upper_def upper_char_def set_gmls_def set_vstate_def Let_def
      octave_up_def octave_down_def cmd_note_def cmd_N_def sound_note_def play_sound_def
      play_sound_no_wait_def music_waiting_def queue_length_def bindE_def qsize_def put_def
      four_queues_def empty_queue_def PlayState_init_def notes_dict_def py_index_def
      length_note_freq note_freq_pos note_freq_not_neg note_freq_nonzero digits_def external_def

text \<open>
  The string \<open>>>C\<close> from octave 4, run to the end of the loop with no tone taken off the
  queues, and through the whole of \<^verbatim>\<open>play\<close> with a renderer that empties them.
\<close>

lemma two_octaves_up:
  "octave (play_state s0 ! 0) = 4"
  "loop_tones (play_loop literal_parser id (start_ctx [''>>C'', '''', ''''] s0)) 0
     = Some [AUDIO_TONE (note_freq ! (6 * 12 + 0)) (1 / 2) (7 / 8) False 15]"
  "loop_octave (play_loop literal_parser id (start_ctx [''>>C'', '''', ''''] s0)) 0 = Some 6"
  "final_octave (play literal_parser (map drained) [''>>C'', '''', ''''] s0) 0 = Some 6"
proof -
  show "octave (play_state s0 ! 0) = 4"
    by (simp add: s0_def Sound_init_def reset_def PlayState_init_def)
  show "loop_tones (play_loop literal_parser id (start_ctx [''>>C'', '''', ''''] s0)) 0
     = Some [AUDIO_TONE (note_freq ! (6 * 12 + 0)) (1 / 2) (7 / 8) False 15]"
    by (simp add: eval_defs loop_tones_def play_loop.simps wait_music.simps)
  show "loop_octave (play_loop literal_parser id (start_ctx [''>>C'', '''', ''''] s0)) 0 = Some 6"
    by (simp add: eval_defs loop_octave_def play_loop.simps wait_music.simps)
  show "final_octave (play literal_parser (map drained) [''>>C'', '''', ''''] s0) 0 = Some 6"
    by (simp add: eval_defs final_octave_def play_def play_loop.simps wait_music.simps
        wait_all_music.simps music_playing_def is_playing_def drained_def waited_def
        start_ctx_def [symmetric])
qed

text \<open>
  C1, as stated, fails. From octave 4 the string \<open>>>C\<close> leaves the octave of the voice at
  6, when the loop ends and when \<^verbatim>\<open>play\<close> returns: nothing sets it back to 4 after the
  note.
\<close>

theorem octave_shift_not_reset_counterexample:
  "octave (play_state s0 ! 0) = 4 \<and>
   loop_octave (play_loop literal_parser id (start_ctx [''>>C'', '''', ''''] s0)) 0 = Some 6 \<and>
   final_octave (play literal_parser (map drained) [''>>C'', '''', ''''] s0) 0 = Some 6"
  using two_octaves_up by simp

text \<open>Waiting changes the queues only; a note leaves the state of its voice alone.\<close>

lemma wait_music_play_state:
  assumes "wait_music ew wl s = Some r"
  shows "\<forall>s'. r = Inr s' \<longrightarrow> play_state s' = play_state s"
proof (rule wait_music.raw_induct
    [where P = "\<lambda>ew wl s r. \<forall>s'. r = Inr s' \<longrightarrow> play_state s' = play_state s", OF _ assms])
  fix f :: "(tqueue list \<Rightarrow> tqueue list) \<Rightarrow> int \<Rightarrow> Sound \<Rightarrow> (error + Sound) option"
  fix ew wl s r
  assume IH: "\<And>ew wl s r. f ew wl s = Some r \<Longrightarrow> \<forall>s'. r = Inr s' \<longrightarrow> play_state s' = play_state s"
    and step: "(case music_waiting s wl of Inl e \<Rightarrow> Some (Inl e)
      | Inr w \<Rightarrow> if w then f ew wl (waited ew s) else Some (Inr s)) = Some r"
  show "\<forall>s'. r = Inr s' \<longrightarrow> play_state s' = play_state s"
  proof (cases "music_waiting s wl")
    case (Inl e)
    with step show ?thesis by auto
  next
    case (Inr w)
    show ?thesis
    proof (cases w)
      case True
      with step Inr have "f ew wl (waited ew s) = Some r" by simp
      from IH [OF this] show ?thesis by (simp add: waited_def)
    next
      case False
      with step Inr show ?thesis by auto
    qed
  qed
qed

lemma play_sound_play_state:
  "play_sound ew f d fill loop voice vol s = Some (Inr s') \<Longrightarrow> play_state s' = play_state s"
proof -
  assume a: "play_sound ew f d fill loop voice vol s = Some (Inr s')"
  then obtain s1 where s1: "play_sound_no_wait f d fill loop voice vol s = Inr s1"
    and w: "wait_music ew 15 s1 = Some (Inr s')"
    by (auto simp: play_sound_def split: sum.splits)
  have "play_state s1 = play_state s"
    using s1 by (auto simp: play_sound_no_wait_def Let_def split: if_splits)
  with wait_music_play_state [OF w] show ?thesis by simp
qed

lemma sound_note_play_state:
  "sound_note ew f d fill vol voice c = Some (Inr c') \<Longrightarrow>
   play_state (sound c') = play_state (sound c)"
  by (auto simp: sound_note_def split: option.splits sum.splits if_splits
      dest: play_sound_play_state)

lemma cmd_note_play_state:
  "cmd_note P ew voice ch rest c = Some (Inr c') \<Longrightarrow>
   play_state (sound c') = play_state (sound c)"
  by (auto simp: cmd_note_def Let_def set_gmls_def
      split: option.splits sum.splits if_splits prod.splits dest!: sound_note_play_state)

text \<open>
  C1, amended: \<open>>\<close> and \<open><\<close> raise and lower the octave of the voice itself by one,
  kept within 0 and 6, and the change stays: a note that follows does not change the state
  of any voice, so the octave is not set back after it. From octave 4 the string \<open>>>C\<close>
  sounds its note at octave 6, the seventh row of the table of frequencies, and the octave
  of the voice is 6 when \<^verbatim>\<open>play\<close> returns.
\<close>

theorem octave_shift_persists:
  assumes "voice < length (play_state (sound c))" and "voice < length (gmls_list c)"
    and "skip_read (whitepace P) (gmls_list c ! voice) = (c0, rest)"
  shows "(upper c0 = ''>'' \<longrightarrow> voice_step P ew voice c
            = Some (Inr (set_vstate voice (\<lambda>v. v\<lparr>octave := min 6 (octave v + 1)\<rparr>)
                           (set_gmls voice rest c))))
       \<and> (upper c0 = ''<'' \<longrightarrow> voice_step P ew voice c
            = Some (Inr (set_vstate voice (\<lambda>v. v\<lparr>octave := max 0 (octave v - 1)\<rparr>)
                           (set_gmls voice rest c))))
       \<and> (upper c0 \<in> {''A'', ''B'', ''C'', ''D'', ''E'', ''F'', ''G'', ''P''} \<longrightarrow>
            (\<forall>c'. voice_step P ew voice c = Some (Inr c') \<longrightarrow>
                  play_state (sound c') = play_state (sound c)))
       \<and> loop_tones (play_loop literal_parser id (start_ctx [''>>C'', '''', ''''] s0)) 0
            = Some [AUDIO_TONE (note_freq ! (6 * 12 + 0)) (1 / 2) (7 / 8) False 15]
       \<and> final_octave (play literal_parser (map drained) [''>>C'', '''', ''''] s0) 0 = Some 6"
proof (intro conjI impI allI)
  show "loop_tones (play_loop literal_parser id (start_ctx [''>>C'', '''', ''''] s0)) 0
      = Some [AUDIO_TONE (note_freq ! (6 * 12 + 0)) (1 / 2) (7 / 8) False 15]"
    by (rule two_octaves_up)
  show "final_octave (play literal_parser (map drained) [''>>C'', '''', ''''] s0) 0 = Some 6"
    by (rule two_octaves_up)
next
  have up: "octave_up = (\<lambda>v. v\<lparr>octave := min 6 (octave v + 1)\<rparr>)"
    by (rule ext) (simp add: octave_up_def min_def)
  assume "upper c0 = ''>''"
  then show "voice_step P ew voice c
      = Some (Inr (set_vstate voice (\<lambda>v. v\<lparr>octave := min 6 (octave v + 1)\<rparr>)
                     (set_gmls voice rest c)))"
    using assms by (simp add: voice_step_def up)
next
  have down: "octave_down = (\<lambda>v. v\<lparr>octave := max 0 (octave v - 1)\<rparr>)"
    by (rule ext) (simp add: octave_down_def max_def)
  assume "upper c0 = ''<''"
  then show "voice_step P ew voice c
      = Some (Inr (set_vstate voice (\<lambda>v. v\<lparr>octave := max 0 (octave v - 1)\<rparr>)
                     (set_gmls voice rest c)))"
    using assms by (simp add: voice_step_def down)
next
  fix c'
  assume n: "upper c0 \<in> {''A'', ''B'', ''C'', ''D'', ''E'', ''F'', ''G'', ''P''}"
    and st: "voice_step P ew voice c = Some (Inr c')"
  from n have "upper c0 \<noteq> []" "upper c0 \<noteq> '';''" "upper c0 \<noteq> ''X''" "upper c0 \<noteq> ''N''"
    "upper c0 \<noteq> ''L''" "upper c0 \<noteq> ''T''" "upper c0 \<noteq> ''O''" "upper c0 \<noteq> ''>''" "upper c0 \<noteq> ''<''"
    by auto
  with st n assms have "cmd_note P ew voice (upper c0) rest (set_gmls voice rest c) = Some (Inr c')"
    by (simp add: voice_step_def)
  from cmd_note_play_state [OF this] show "play_state (sound c') = play_state (sound c)"
    by (simp add: set_gmls_def)
qed

theorem octave_shift_persists_witness:
  "voice_step literal_parser id 0 (start_ctx [''>>C'', '''', ''''] s0)
     = Some (Inr (set_vstate 0 (\<lambda>v. v\<lparr>octave := min 6 (octave v + 1)\<rparr>)
                    (set_gmls 0 ''>C'' (start_ctx [''>>C'', '''', ''''] s0))))"
  using octave_shift_persists [of 0 "start_ctx [''>>C'', '''', ''''] s0" literal_parser "''>''"
      "''>C''" id]
  by (simp add: start_ctx_def s0_def Sound_init_def reset_def skip_read_def literal_parser_def
      upper_def upper_char_def)

text \<open>
  C10. The command \<open>N\<close> with a parsed number above 84 raises no error, puts no tone on
  any queue and leaves the accumulated durations as they are. The voice stays active and
  its stream stands right after the number (and after the dot, when one follows), where the
  next command of the voice is read.
\<close>

theorem note_above_84_is_skipped:
  assumes "voice < length (play_state (sound c))" and "voice < length (gmls_list c)"
    and "skip_read (whitepace P) (gmls_list c ! voice) = (c0, rest)" and "upper c0 = ''N''"
    and "ml_parse_number P rest = Inr (k, rest1)" and "84 < k"
  shows "\<exists>c'. voice_step P ew voice c = Some (Inr c')
           \<and> sound c' = sound c \<and> total_time c' = total_time c \<and> voices c' = voices c
           \<and> next_oct c' = next_oct c
           \<and> gmls_list c' = (gmls_list c)[voice :=
                (if upper (fst (skip (whitepace P) rest1)) = ''.''
                 then drop 1 (snd (skip (whitepace P) rest1))
                 else snd (skip (whitepace P) rest1))]"
  using assms
  by (simp add: voice_step_def cmd_N_def external_def set_gmls_def Let_def split: prod.splits)

theorem note_above_84_is_skipped_witness:
  "\<exists>c'. voice_step literal_parser id 0 (start_ctx [''N85.C'', '''', ''''] s0) = Some (Inr c')
      \<and> sound c' = s0 \<and> total_time c' = [0, 0, 0, 0] \<and> voices c' = [0, 1, 2]
      \<and> next_oct c' = 0 \<and> gmls_list c' = [''C'', '''', '''']"
  using note_above_84_is_skipped [of 0 "start_ctx [''N85.C'', '''', ''''] s0" literal_parser
      "''N''" "''85.C''" 85 "''.C''" id]
  by (simp add: start_ctx_def s0_def Sound_init_def reset_def skip_read_def skip_def
      literal_parser_def literal_number_def upper_def upper_char_def digits_def
      int_of_digits_def digit_value_def)

text \<open>
  C2 fails on the code. The loop removes an exhausted voice from the list it is iterating
  over, and the iteration then skips the voice that follows. With the strings \<open>""\<close>,
  \<open>"C"\<close> and \<open>"D"\<close> the first pass removes voice 0 and plays the \<open>D\<close> of voice 2;
  voice 1 is active before and after the pass and nothing of its text was read.
\<close>

theorem round_robin_skips_voice:
  "ctx_view (for_voices literal_parser id 0 (start_ctx ['''', ''C'', ''D''] s0))
     = Some (Inr (['''', ''C'', ''''], [1, 2], [4, 4, 4], [0, 0, 1 / 2, 0], [0, 0, 1, 0]))"
  by (simp add: eval_defs ctx_view_def wait_music.simps)

section \<open>Properties of the memory\<close>

text \<open>No region and no block function raises the protection error or the out-of-range error.\<close>

lemma external_not_IFC: "external r \<noteq> Inl IFC"
  by (simp add: external_def split: sum.splits)

lemma py_index_error: "py_index xs i = Inl e \<Longrightarrow> e = IndexError"
  by (simp add: py_index_def split: if_splits)

lemma get_memory_error:
  "get_memory E m addr = Inl e \<Longrightarrow> e \<noteq> IFC \<and> e \<noteq> OutOfRange"
  by (auto simp: get_memory_def max0_def bindE_def get_rom_memory_def get_font_memory_def
      get_video_memory_def glyph_byte_def external_def Let_def
      split: option.splits if_splits sum.splits dest: py_index_error)

lemma get_bytes_error:
  "get_bytes E m as = Inl e \<Longrightarrow> e \<noteq> IFC \<and> e \<noteq> OutOfRange"
proof (induction as arbitrary: e)
  case Nil
  then show ?case by simp
next
  case (Cons a as)
  then show ?case
    by (auto simp: bindE_def split: sum.splits if_splits dest: get_memory_error)
qed

lemma get_memory_block_error:
  "get_memory_block E m addr len = Inl e \<Longrightarrow> e \<noteq> IFC \<and> e \<noteq> OutOfRange"
  by (auto simp: get_memory_block_def bindE_def external_def Let_def
      split: sum.splits if_splits dest: get_bytes_error)

lemma set_memory_error:
  "set_memory E m addr v = Raised e m' \<Longrightarrow> e \<noteq> IFC \<and> e \<noteq> OutOfRange"
  by (auto simp: set_memory_def set_font_memory_def set_video_memory_def put_video_def
      set_data_memory_def set_low_memory_def Let_def
      split: if_splits option.splits sum.splits prod.splits)

lemma set_bytes_error:
  "set_bytes E m addr bs = Raised e m' \<Longrightarrow> e \<noteq> IFC \<and> e \<noteq> OutOfRange"
proof (induction bs arbitrary: m addr)
  case Nil
  then show ?case by simp
next
  case (Cons b bs)
  then show ?case
    by (auto simp: then_do_def split: outcome.splits dest: set_memory_error)
qed

lemma set_memory_block_error:
  "set_memory_block E m addr buf = Raised e m' \<Longrightarrow> e \<noteq> IFC \<and> e \<noteq> OutOfRange"
  by (auto simp: set_memory_block_def then_do_def put_video_def Let_def
      split: if_splits outcome.splits sum.splits dest: set_bytes_error)

lemma tandy_header_error: "tandy_header E seg off l = Inl e \<Longrightarrow> e = StructError"
  by (auto simp: tandy_header_def pack_H_def bindE_def split: if_splits sum.splits)

lemma write_file_error:
  "write_file E m block = Raised e m' \<Longrightarrow> (\<exists>n. e = External n) \<or> block = Inl e"
  by (auto simp: write_file_def split: sum.splits)

lemma peek_op_allowed:
  "\<not> (protected m \<and> \<not> run_mode m) \<Longrightarrow> peek_op E m a \<noteq> Inl IFC"
  by (auto simp: peek_op_def bindE_def external_def split: sum.splits dest: get_memory_error)

lemma poke_op_allowed:
  "\<not> (protected m \<and> \<not> run_mode m) \<Longrightarrow> poke_op E m a v \<noteq> Raised IFC m'"
  by (auto simp: poke_op_def external_def range_check_def
      split: sum.splits if_splits dest: set_memory_error)

lemma bload_op_allowed:
  "\<not> (protected m \<and> \<not> run_mode m) \<Longrightarrow> bload_op E m name offset \<noteq> Raised IFC m'"
  by (auto simp: bload_op_def external_def bindE_def Let_def
      split: sum.splits if_splits option.splits prod.splits dest: set_memory_block_error)

lemma bsave_op_allowed:
  "\<not> (protected m \<and> \<not> run_mode m) \<Longrightarrow> bsave_op E m name off len \<noteq> Raised IFC m'"
  by (auto simp: bsave_op_def external_def then_do_def
      split: sum.splits if_splits outcome.splits
      dest!: write_file_error tandy_header_error get_memory_block_error)

text \<open>
  C5, as stated, fails for \<^verbatim>\<open>POKE\<close>: the address is converted before the protection
  check, and with a protected program outside run mode an address that does not convert
  raises the error of the conversion, not the protection error.
\<close>

theorem poke_converts_before_protection_counterexample:
  "protected (sample_memory True False) \<and> \<not> run_mode (sample_memory True False) \<and>
   poke_op sample_collaborators (sample_memory True False) (Text ''A'') (Number 1)
     = Raised (External 13) (sample_memory True False)"
  by (simp add: poke_op_def sample_collaborators_def sample_to_int_def external_def
      sample_memory_def Memory_init_def)

text \<open>
  C5, amended: with a protected program outside run mode, \<^verbatim>\<open>PEEK\<close>, \<^verbatim>\<open>BLOAD\<close> and
  \<^verbatim>\<open>BSAVE\<close> raise the protection error whatever their arguments, and \<^verbatim>\<open>POKE\<close> raises
  it whenever its address converts to an integer (otherwise the error of the conversion);
  all four leave the state as it was. When the program is not protected or the interpreter
  is in run mode, none of them raises the protection error.
\<close>

theorem protection_check:
  "(protected m \<and> \<not> run_mode m \<longrightarrow>
      peek_op E m a = Inl IFC
      \<and> bload_op E m name offset = Raised IFC m
      \<and> bsave_op E m name a len = Raised IFC m
      \<and> poke_op E m a v = (case to_int E True a of
                              Inl n \<Rightarrow> Raised (External n) m
                            | Inr i \<Rightarrow> Raised IFC m))
   \<and> (\<not> (protected m \<and> \<not> run_mode m) \<longrightarrow>
      peek_op E m a \<noteq> Inl IFC
      \<and> (\<forall>m'. bload_op E m name offset \<noteq> Raised IFC m')
      \<and> (\<forall>m'. bsave_op E m name a len \<noteq> Raised IFC m')
      \<and> (\<forall>m'. poke_op E m a v \<noteq> Raised IFC m'))"
proof (intro conjI impI allI)
  assume g: "protected m \<and> \<not> run_mode m"
  from g show "peek_op E m a = Inl IFC" by (simp add: peek_op_def)
  from g show "bload_op E m name offset = Raised IFC m" by (simp add: bload_op_def)
  from g show "bsave_op E m name a len = Raised IFC m" by (simp add: bsave_op_def)
  from g show "poke_op E m a v = (case to_int E True a of
      Inl n \<Rightarrow> Raised (External n) m | Inr i \<Rightarrow> Raised IFC m)"
    by (simp add: poke_op_def external_def split: sum.splits)
next
  assume g: "\<not> (protected m \<and> \<not> run_mode m)"
  from g show "peek_op E m a \<noteq> Inl IFC" by (rule peek_op_allowed)
  fix m'
  from g show "bload_op E m name offset \<noteq> Raised IFC m'" by (rule bload_op_allowed)
  from g show "bsave_op E m name a len \<noteq> Raised IFC m'" by (rule bsave_op_allowed)
  from g show "poke_op E m a v \<noteq> Raised IFC m'" by (rule poke_op_allowed)
qed

theorem protection_check_witness:
  "peek_op sample_collaborators (sample_memory True False) (Number 0) = Inl IFC \<and>
   poke_op sample_collaborators (sample_memory True False) (Number 0) (Number 1)
     = Raised IFC (sample_memory True False) \<and>
   peek_op sample_collaborators (sample_memory True True) (Number 0) \<noteq> Inl IFC"
  using protection_check [of "sample_memory True False" sample_collaborators "Number 0"
      "Number 0" None "Number 0" "Number 1"]
    protection_check [of "sample_memory True True" sample_collaborators "Number 0"
      "Number 0" None "Number 0" "Number 1"]
  by (simp add: sample_memory_def Memory_init_def sample_collaborators_def sample_to_int_def)

text \<open>
  C6, as stated, fails: with a protected program outside run mode the protection check comes
  before the range check, and \<^verbatim>\<open>POKE\<close> of the value 300 raises the protection error, not
  the out-of-range error.
\<close>

theorem poke_protected_out_of_range_counterexample:
  "protected (sample_memory True False) \<and> \<not> run_mode (sample_memory True False) \<and>
   sample_to_int False (Number 300) = Inr 300 \<and>
   poke_op sample_collaborators (sample_memory True False) (Number 0) (Number 300)
     = Raised IFC (sample_memory True False)"
  by (simp add: poke_op_def sample_collaborators_def sample_to_int_def external_def
      sample_memory_def Memory_init_def)

text \<open>
  C6, amended: when the protection check passes and both arguments convert to integers,
  \<^verbatim>\<open>POKE\<close> fails with the out-of-range error exactly when the value is outside 0 to 255,
  whatever the address and its region. Whenever it fails with that error, the state is the
  one before the call.
\<close>

theorem poke_range_check:
  "(to_int E True a = Inr addr \<longrightarrow> to_int E False v = Inr n \<longrightarrow>
      \<not> (protected m \<and> \<not> run_mode m) \<longrightarrow>
        ((\<exists>m'. poke_op E m a v = Raised OutOfRange m') \<longleftrightarrow> (n < 0 \<or> 255 < n)))
   \<and> (\<forall>m'. poke_op E m a v = Raised OutOfRange m' \<longrightarrow> m' = m)"
proof (intro conjI impI allI)
  assume c: "to_int E True a = Inr addr" "to_int E False v = Inr n"
    and g: "\<not> (protected m \<and> \<not> run_mode m)"
  show "(\<exists>m'. poke_op E m a v = Raised OutOfRange m') \<longleftrightarrow> (n < 0 \<or> 255 < n)"
  proof
    assume "\<exists>m'. poke_op E m a v = Raised OutOfRange m'"
    then obtain m' where r: "poke_op E m a v = Raised OutOfRange m'" ..
    show "n < 0 \<or> 255 < n"
    proof (rule ccontr)
      assume "\<not> (n < 0 \<or> 255 < n)"
      with c g r have "set_memory E m ((if addr < 0 then addr + 0x10000 else addr)
          + segment m * 0x10) n = Raised OutOfRange m'"
        by (auto simp: poke_op_def external_def range_check_def)
      from set_memory_error [OF this] show False by simp
    qed
  next
    assume "n < 0 \<or> 255 < n"
    with c g have "poke_op E m a v = Raised OutOfRange m"
      by (auto simp: poke_op_def external_def range_check_def)
    then show "\<exists>m'. poke_op E m a v = Raised OutOfRange m'" ..
  qed
next
  fix m'
  assume "poke_op E m a v = Raised OutOfRange m'"
  then show "m' = m"
    by (auto simp: poke_op_def external_def range_check_def
        split: sum.splits if_splits dest: set_memory_error)
qed

theorem poke_range_check_witness:
  "poke_op sample_collaborators (sample_memory False False) (Number 0) (Number 300)
     = Raised OutOfRange (sample_memory False False) \<and>
   poke_op sample_collaborators (sample_memory False False) (Number 0) (Number 255)
     \<noteq> Raised OutOfRange (sample_memory False False)"
  using poke_range_check [of sample_collaborators "Number 0" 0 "Number 300" 300
      "sample_memory False False"]
    poke_range_check [of sample_collaborators "Number 0" 0 "Number 255" 255
      "sample_memory False False"]
  by (auto simp: sample_memory_def Memory_init_def sample_collaborators_def sample_to_int_def)

lemma get_low_memory_unmapped:
  assumes "\<not> low_memory_mapped addr"
  shows "get_low_memory m addr = - 1"
proof -
  from assms consider (a) "addr < 124" | (b) "127 < addr" "addr < 1040"
    | (c) "1041 < addr" "addr < 1047" | (d) "1085 < addr" "addr < 1097"
    | (e) "1101 < addr" "addr < 1104" | (f) "1122 < addr" "addr < 1125" | (g) "1126 < addr"
    unfolding low_memory_mapped_def by linarith
  then show ?thesis
    by cases (simp_all add: get_low_memory_def Let_def key_buffer_offset_def)
qed

text \<open>
  C7. With the data segment not above the video segment, as in the table of regions, an
  address below the base of the data segment that has no preset value and no branch in the
  low-memory handler reads as 0: the handler returns \<open>-1\<close> and the dispatcher clamps it.
  So does \<^verbatim>\<open>PEEK\<close> of an offset that lands on such an address, when the protection
  check passes.
\<close>

theorem unmapped_low_memory_reads_zero:
  assumes "peek_values m addr = None" and "data_segment m \<le> video_segment"
    and "addr < data_segment m * 0x10" and "\<not> low_memory_mapped addr"
  shows "get_low_memory m addr = - 1 \<and> get_memory E m addr = Inr 0
       \<and> (\<forall>a off. \<not> (protected m \<and> \<not> run_mode m) \<longrightarrow> to_int E True a = Inr off \<longrightarrow>
             off + segment m * 0x10 = addr \<longrightarrow> peek_op E m a = Inr 0)"
proof -
  have low: "get_low_memory m addr = - 1" using assms(4) by (rule get_low_memory_unmapped)
  have "addr < video_segment * 0x10" using assms(2,3) by simp
  then have "get_memory E m addr = Inr 0"
    using assms(1,3) low
    by (simp add: get_memory_def max0_def bindE_def video_segment_def rom_segment_def
        ram_font_segment_def)
  with low show ?thesis by (auto simp: peek_op_def bindE_def external_def)
qed

theorem unmapped_low_memory_reads_zero_witness:
  "get_low_memory (def_seg (sample_memory False False) (Some 0)) 1300 = - 1 \<and>
   get_memory sample_collaborators (def_seg (sample_memory False False) (Some 0)) 1300 = Inr 0 \<and>
   peek_op sample_collaborators (def_seg (sample_memory False False) (Some 0)) (Number 1300)
     = Inr 0"
proof -
  let ?m = "def_seg (sample_memory False False) (Some 0)"
  have h1: "peek_values ?m 1300 = None"
    by (simp add: def_seg_def sample_memory_def Memory_init_def)
  have h2: "data_segment ?m \<le> video_segment"
    by (simp add: def_seg_def sample_memory_def Memory_init_def video_segment_def)
  have h3: "1300 < data_segment ?m * 0x10"
    by (simp add: def_seg_def sample_memory_def Memory_init_def)
  have h4: "\<not> low_memory_mapped 1300" by (simp add: low_memory_mapped_def)
  have g: "\<not> (protected ?m \<and> \<not> run_mode ?m)"
    by (simp add: def_seg_def sample_memory_def Memory_init_def)
  have c: "to_int sample_collaborators True (Number 1300) = Inr 1300"
    by (simp add: sample_collaborators_def sample_to_int_def)
  have a: "1300 + segment ?m * 0x10 = 1300"
    by (simp add: def_seg_def)
  from unmapped_low_memory_reads_zero [OF h1 h2 h3 h4, of sample_collaborators] g c a
  show ?thesis by blast
qed

text \<open>
  C8. A write to an address at or above the base of the ROM segment, of any value, raises
  nothing and returns the state unchanged, so every address reads afterwards as it did
  before. So does \<^verbatim>\<open>POKE\<close> of a value from 0 to 255 at an offset that lands there,
  when the protection check passes.
\<close>

theorem rom_write_is_ignored:
  assumes "rom_segment * 0x10 \<le> addr"
  shows "set_memory E m addr val = Done m
       \<and> (\<forall>m' a. set_memory E m addr val = Done m' \<longrightarrow> get_memory E m' a = get_memory E m a)
       \<and> (\<forall>a v off. \<not> (protected m \<and> \<not> run_mode m) \<longrightarrow> to_int E True a = Inr off \<longrightarrow>
             to_int E False v = Inr val \<longrightarrow> 0 \<le> val \<and> val \<le> 255 \<longrightarrow>
             (if off < 0 then off + 0x10000 else off) + segment m * 0x10 = addr \<longrightarrow>
             poke_op E m a v = Done m)"
proof -
  have w: "set_memory E m addr val = Done m" using assms by (simp add: set_memory_def)
  then show ?thesis
    by (auto simp: poke_op_def external_def range_check_def)
qed

theorem rom_write_is_ignored_witness:
  "set_memory sample_collaborators (sample_memory False False) 0xffa6e 255
     = Done (sample_memory False False) \<and>
   poke_op sample_collaborators (def_seg (sample_memory False False) (Some 0xf000))
       (Number 0xfa6e) (Number 255)
     = Done (def_seg (sample_memory False False) (Some 0xf000))"
  using rom_write_is_ignored [of "0xffa6e" sample_collaborators "sample_memory False False" 255]
    rom_write_is_ignored [of "0xffa6e" sample_collaborators
      "def_seg (sample_memory False False) (Some 0xf000)" 255]
  by (simp add: rom_segment_def def_seg_def sample_memory_def Memory_init_def
      sample_collaborators_def sample_to_int_def)

section \<open>Properties of the serial ports\<close>

text \<open>The two masks of the divisor, in arithmetic.\<close>

lemma and_ff: "(d::int) AND 0xff = d mod 256"
proof -
  have "d AND mask 8 = take_bit 8 d" by (simp add: take_bit_eq_mask)
  moreover have "mask 8 = (0xff::int)" by (simp add: mask_eq_exp_minus_1)
  ultimately show ?thesis by (simp add: take_bit_eq_mod)
qed

lemma and_ff00: "(d::int) AND 0xff00 = 256 * (d div 256 mod 256)"
proof -
  have "(d::int) AND push_bit 8 (mask 8) = push_bit 8 (take_bit 8 (drop_bit 8 d))"
    by (rule bit_eqI) (auto simp: bit_simps)
  moreover have "push_bit 8 (mask 8) = (0xff00::int)"
    by (simp add: push_bit_eq_mult mask_eq_exp_minus_1)
  ultimately show ?thesis
    by (simp add: push_bit_eq_mult take_bit_eq_mod drop_bit_eq_div)
qed

lemma divisor_bytes:
  assumes "0 \<le> val" and "val \<le> 255"
  shows "(((d::int) AND 0xff00) + val) mod 256 = val"
    and "((d AND 0xff00) + val) div 256 = d div 256 mod 256"
    and "(val * 0x100 + (d AND 0xff)) mod 256 = d mod 256"
    and "(val * 0x100 + (d AND 0xff)) div 256 = val"
  using assms by (simp_all add: and_ff and_ff00)

text \<open>A write to a register of one serial port goes through the loop as the step of that port alone.\<close>

lemma out_com_other:
  assumes "addr \<noteq> fst port" "addr \<noteq> fst port + 1" "addr \<noteq> fst port + 3" "addr \<noteq> fst port + 4"
    and "ports_wf p" and "snd port < 2"
  shows "out_com addr val port p = Done p"
  using assms by (simp add: out_com_def ports_wf_def Let_def split: option.splits)

lemma out_op_com1:
  assumes "ports_wf p" and "addr \<in> {0x3f8, 0x3f9, 0x3fb, 0x3fc}"
  shows "out_op addr val p = out_com addr val (0x3f8, 0) p"
proof -
  have "out_com addr val (0x2f8, 1) q = Done q" if "ports_wf q" for q
    using assms(2) that by (intro out_com_other) auto
  moreover have "ports_wf q" if "out_com addr val (0x3f8, 0) p = Done q" for q
    using that assms(1)
    by (auto simp: out_com_def ports_wf_def Let_def split: option.splits if_splits)
  ultimately show ?thesis
    using assms(2) by (auto simp: out_op_def com_base_def then_do_def split: outcome.splits)
qed

lemma out_op_com2:
  assumes "ports_wf p" and "addr \<in> {0x2f8, 0x2f9, 0x2fb, 0x2fc}"
  shows "out_op addr val p = out_com addr val (0x2f8, 1) p"
proof -
  have "out_com addr val (0x3f8, 0) p = Done p"
    using assms by (intro out_com_other) auto
  then show ?thesis
    using assms(2) by (auto simp: out_op_def com_base_def then_do_def split: outcome.splits)
qed

text \<open>The flag that enables the divisor is set by the line-control register only.\<close>

lemma out_com_enable:
  assumes "\<not> com_enable_baud_write p ! n"
    and "com_enable_baud_write (state_of (out_com addr v port p)) ! n"
  shows "snd port = n \<and> addr = fst port + 3 \<and> v AND 0x80 \<noteq> 0"
  using assms
  by (auto simp: out_com_def state_of_def Let_def nth_list_update
      split: option.splits if_splits)

lemma out_coms_enable:
  assumes "\<not> com_enable_baud_write p ! n"
    and "com_enable_baud_write (state_of (out_coms addr v ports p)) ! n"
  shows "\<exists>port \<in> set ports. snd port = n \<and> addr = fst port + 3 \<and> v AND 0x80 \<noteq> 0"
  using assms
proof (induction ports arbitrary: p)
  case Nil
  then show ?case by (simp add: state_of_def)
next
  case (Cons port ports)
  show ?case
  proof (cases "out_com addr v port p")
    case (Done q)
    show ?thesis
    proof (cases "com_enable_baud_write q ! n")
      case True
      with Done Cons.prems(1) out_com_enable [of p n addr v port] show ?thesis
        by (simp add: state_of_def)
    next
      case False
      from Cons.prems(2) Done have "com_enable_baud_write (state_of (out_coms addr v ports q)) ! n"
        by (simp add: then_do_def)
      from Cons.IH [OF False this] show ?thesis by auto
    qed
  next
    case (Raised e q)
    with Cons.prems out_com_enable [of p n addr v port] show ?thesis
      by (simp add: then_do_def state_of_def)
  qed
qed

lemma out_op_enable:
  assumes "\<not> com_enable_baud_write p ! n"
    and "com_enable_baud_write (state_of (out_op addr v p)) ! n"
  shows "\<exists>port \<in> set com_base. snd port = n \<and> addr = fst port + 3 \<and> v AND 0x80 \<noteq> 0"
proof (cases "addr = 0x201 \<or> addr = 0x3c5 \<or> addr = 0x3cf \<or> addr = 0x3d8
    \<or> addr = 0x378 \<or> addr = 0x37A \<or> addr = 0x278 \<or> addr = 0x27A")
  case True
  with assms show ?thesis
    by (auto simp: out_op_def out_lpt_def state_of_def Let_def split: if_splits option.splits)
next
  case False
  with assms(2) have "com_enable_baud_write (state_of (out_coms addr v com_base p)) ! n"
    by (simp add: out_op_def)
  from out_coms_enable [OF assms(1) this] show ?thesis .
qed

text \<open>
  C9. For a serial port with a stream attached, a write to its base address or to the next
  one changes nothing while the flag that enables the divisor is not set. When it is set,
  the write at the base replaces the low byte of the divisor and the write at the next
  address replaces its high byte, and when the new divisor is not zero the baud rate of
  the stream becomes 115200 divided by it, the parity, byte size and stop bits staying as
  they were. The flag is set only by a write to the line-control register of that port, at
  base + 3, with bit 7 of the value set.
\<close>

theorem baud_divisor_write:
  assumes "(base_addr, n) \<in> set com_base" and "ports_wf p"
    and "com_device p ! n = Some stream"
  shows "(\<not> com_enable_baud_write p ! n \<longrightarrow>
            out_op base_addr val p = Done p \<and> out_op (base_addr + 1) val p = Done p)
       \<and> (com_enable_baud_write p ! n \<longrightarrow>
            (\<exists>p'. out_op base_addr val p = Done p'
               \<and> com_baud_divisor p' ! n = (com_baud_divisor p ! n AND 0xff00) + val
               \<and> com_device p' ! n =
                     Some (if com_baud_divisor p' ! n \<noteq> 0
                           then stream\<lparr>baudrate := 115200 div com_baud_divisor p' ! n\<rparr>
                           else stream))
          \<and> (\<exists>p'. out_op (base_addr + 1) val p = Done p'
               \<and> com_baud_divisor p' ! n = val * 0x100 + (com_baud_divisor p ! n AND 0xff)
               \<and> com_device p' ! n =
                     Some (if com_baud_divisor p' ! n \<noteq> 0
                           then stream\<lparr>baudrate := 115200 div com_baud_divisor p' ! n\<rparr>
                           else stream)))
       \<and> (0 \<le> val \<and> val \<le> 255 \<longrightarrow>
            ((com_baud_divisor p ! n AND 0xff00) + val) mod 256 = val
          \<and> ((com_baud_divisor p ! n AND 0xff00) + val) div 256
               = com_baud_divisor p ! n div 256 mod 256
          \<and> (val * 0x100 + (com_baud_divisor p ! n AND 0xff)) mod 256
               = com_baud_divisor p ! n mod 256
          \<and> (val * 0x100 + (com_baud_divisor p ! n AND 0xff)) div 256 = val)
       \<and> (\<forall>addr v. \<not> com_enable_baud_write p ! n \<longrightarrow>
            com_enable_baud_write (state_of (out_op addr v p)) ! n \<longrightarrow>
            addr = base_addr + 3 \<and> v AND 0x80 \<noteq> 0)"
proof -
  from assms(1) consider (com1) "base_addr = 0x3f8" "n = 0" | (com2) "base_addr = 0x2f8" "n = 1"
    by (auto simp: com_base_def)
  then have "out_op base_addr val p = out_com base_addr val (base_addr, n) p
      \<and> out_op (base_addr + 1) val p = out_com (base_addr + 1) val (base_addr, n) p"
  proof cases
    case com1
    with assms(2) show ?thesis by (simp add: out_op_com1)
  next
    case com2
    with assms(2) show ?thesis by (simp add: out_op_com2)
  qed
  then have step: "out_op base_addr val p = out_com base_addr val (base_addr, n) p"
    "out_op (base_addr + 1) val p = out_com (base_addr + 1) val (base_addr, n) p"
    by simp_all
  have n: "n < 2" using assms(1) by (auto simp: com_base_def)
  have off: "\<not> com_enable_baud_write p ! n \<Longrightarrow>
      out_op base_addr val p = Done p \<and> out_op (base_addr + 1) val p = Done p"
    using assms(2,3) n by (simp add: step out_com_def ports_wf_def)
  have low: "com_enable_baud_write p ! n \<Longrightarrow>
      \<exists>p'. out_op base_addr val p = Done p'
        \<and> com_baud_divisor p' ! n = (com_baud_divisor p ! n AND 0xff00) + val
        \<and> com_device p' ! n =
              Some (if com_baud_divisor p' ! n \<noteq> 0
                    then stream\<lparr>baudrate := 115200 div com_baud_divisor p' ! n\<rparr>
                    else stream)"
    using assms(2,3) n by (simp add: step out_com_def ports_wf_def Let_def)
  have high: "com_enable_baud_write p ! n \<Longrightarrow>
      \<exists>p'. out_op (base_addr + 1) val p = Done p'
        \<and> com_baud_divisor p' ! n = val * 0x100 + (com_baud_divisor p ! n AND 0xff)
        \<and> com_device p' ! n =
              Some (if com_baud_divisor p' ! n \<noteq> 0
                    then stream\<lparr>baudrate := 115200 div com_baud_divisor p' ! n\<rparr>
                    else stream)"
    using assms(2,3) n by (simp add: step out_com_def ports_wf_def Let_def)
  have latch: "addr = base_addr + 3 \<and> v AND 0x80 \<noteq> 0"
    if "\<not> com_enable_baud_write p ! n" "com_enable_baud_write (state_of (out_op addr v p)) ! n"
    for addr v
    using out_op_enable [OF that] assms(1) by (auto simp: com_base_def)
  from off low high latch divisor_bytes [of val "com_baud_divisor p ! n"]
  show ?thesis by blast
qed

lemma latched_ports_eq:
  "latched_ports = sample_ports
     \<lparr>com_device := [Some (sample_com\<lparr>parity := ''N'', stopbits := 1, bytesize := 8\<rparr>), None],
      com_enable_baud_write := [True, False]\<rparr>"
  by (simp add: latched_ports_def sample_ports_def MachinePorts_init_def sample_com_def
      out_op_def com_base_def out_com_def then_do_def state_of_def parity_of_def Let_def)

theorem baud_divisor_write_witness:
  "out_op 0x3f8 12 sample_ports = Done sample_ports \<and>
   com_baud_divisor (state_of (out_op 0x3f8 12 latched_ports)) ! 0 = 12 \<and>
   com_device (state_of (out_op 0x3f8 12 latched_ports)) ! 0
     = Some (sample_com\<lparr>baudrate := 9600, parity := ''N'', stopbits := 1, bytesize := 8\<rparr>)"
proof -
  have wf: "ports_wf sample_ports" "ports_wf latched_ports"
    by (simp_all add: latched_ports_eq ports_wf_def sample_ports_def MachinePorts_init_def)
  have b: "(0x3f8, 0) \<in> set com_base" by (simp add: com_base_def)
  have d1: "com_device sample_ports ! 0 = Some sample_com"
    by (simp add: sample_ports_def MachinePorts_init_def)
  have d2: "com_device latched_ports ! 0
      = Some (sample_com\<lparr>parity := ''N'', stopbits := 1, bytesize := 8\<rparr>)"
    by (simp add: latched_ports_eq)
  have e1: "\<not> com_enable_baud_write sample_ports ! 0"
    by (simp add: sample_ports_def MachinePorts_init_def)
  have e2: "com_enable_baud_write latched_ports ! 0" "com_baud_divisor latched_ports ! 0 = 0"
    by (simp_all add: latched_ports_eq sample_ports_def MachinePorts_init_def)
  from baud_divisor_write [OF b wf(1) d1, of 12] e1
  have one: "out_op 0x3f8 12 sample_ports = Done sample_ports" by blast
  from baud_divisor_write [OF b wf(2) d2, of 12] e2(1)
  obtain p' where p': "out_op 0x3f8 12 latched_ports = Done p'"
    "com_baud_divisor p' ! 0 = (com_baud_divisor latched_ports ! 0 AND 0xff00) + 12"
    "com_device p' ! 0 =
       Some (if com_baud_divisor p' ! 0 \<noteq> 0
             then sample_com\<lparr>parity := ''N'', stopbits := 1, bytesize := 8,
                    baudrate := 115200 div com_baud_divisor p' ! 0\<rparr>
             else sample_com\<lparr>parity := ''N'', stopbits := 1, bytesize := 8\<rparr>)"
    by auto
  from p'(2) e2(2) have "com_baud_divisor p' ! 0 = 12" by simp
  with p' one show ?thesis by (simp add: state_of_def sample_com_def)
qed

end
